theory Spec2Isabelle
  imports Complex_Main
begin

text \<open>
  A model of the payment path of the backend: the PayPal service
  (\<open>src/services/paypalService.ts\<close>: \<open>getAccessToken\<close>, \<open>verifyPayPalOrder\<close>,
  \<open>verifyPayPalCapture\<close>, \<open>verifyPayPalPayment\<close>), the payment controller
  (\<open>recordPayPalPayment\<close>) and the unique index of the payment schema
  (\<open>src/models/Payment.ts\<close>). Line numbers are those of the controller.

  The provider is a script of replies, one queue for each endpoint; a call that finds
  its queue empty is never answered. The stores are a map from user ids to balances and
  a list of payments; a store operation fails only when an insert meets the unique
  index.
\<close>

section \<open>JavaScript values used by the payment code\<close>

text \<open>
  The payment controller and the PayPal service compute with JavaScript numbers and
  strings. A number is modelled as a rational or one of the three special values of
  IEEE-754; arithmetic on finite numbers is exact (rounding, overflow to infinity and
  the sign of zero are left out). Strings are byte strings.
\<close>

datatype jsnum = NaN | PosInf | NegInf | Fin rat

text \<open>Values a parsed JSON request body can hold in a field (arrays are left out).\<close>

datatype jsval = JUndefined | JNull | JBool bool | JNum jsnum | JStr string | JObject

fun isFinite :: "jsnum \<Rightarrow> bool" where
  "isFinite (Fin r) = True"
| "isFinite n = False"

fun js_neg :: "jsnum \<Rightarrow> jsnum" where
  "js_neg NaN = NaN"
| "js_neg PosInf = NegInf"
| "js_neg NegInf = PosInf"
| "js_neg (Fin r) = Fin (- r)"

fun js_abs :: "jsnum \<Rightarrow> jsnum" where
  "js_abs NaN = NaN"
| "js_abs PosInf = PosInf"
| "js_abs NegInf = PosInf"
| "js_abs (Fin r) = Fin \<bar>r\<bar>"

fun js_add :: "jsnum \<Rightarrow> jsnum \<Rightarrow> jsnum" where
  "js_add NaN b = NaN"
| "js_add a NaN = NaN"
| "js_add (Fin a) (Fin b) = Fin (a + b)"
| "js_add PosInf NegInf = NaN"
| "js_add NegInf PosInf = NaN"
| "js_add PosInf b = PosInf"
| "js_add NegInf b = NegInf"
| "js_add (Fin a) b = b"

definition js_sub :: "jsnum \<Rightarrow> jsnum \<Rightarrow> jsnum" where
  "js_sub a b = js_add a (js_neg b)"

text \<open>\<open>a < b\<close>; every comparison with \<open>NaN\<close> is false.\<close>

fun js_lt :: "jsnum \<Rightarrow> jsnum \<Rightarrow> bool" where
  "js_lt NaN b = False"
| "js_lt a NaN = False"
| "js_lt (Fin a) (Fin b) = (a < b)"
| "js_lt a NegInf = False"
| "js_lt NegInf b = True"
| "js_lt PosInf b = False"
| "js_lt (Fin a) PosInf = True"

definition js_gt :: "jsnum \<Rightarrow> jsnum \<Rightarrow> bool" where
  "js_gt a b = js_lt b a"

definition js_le :: "jsnum \<Rightarrow> jsnum \<Rightarrow> bool" where
  "js_le a b = (a \<noteq> NaN \<and> b \<noteq> NaN \<and> (a = b \<or> js_lt a b))"

text \<open>\<open>a / b\<close> (a zero divisor is taken as positive zero).\<close>

fun js_div :: "jsnum \<Rightarrow> jsnum \<Rightarrow> jsnum" where
  "js_div NaN b = NaN"
| "js_div a NaN = NaN"
| "js_div (Fin a) (Fin b) =
     (if b = 0 then (if a = 0 then NaN else if 0 < a then PosInf else NegInf)
      else Fin (a / b))"
| "js_div (Fin a) b = Fin 0"
| "js_div PosInf (Fin b) = (if 0 \<le> b then PosInf else NegInf)"
| "js_div NegInf (Fin b) = (if 0 \<le> b then NegInf else PosInf)"
| "js_div a b = NaN"

subsection \<open>Strings\<close>

fun starts_with :: "string \<Rightarrow> string \<Rightarrow> bool" where
  "starts_with s [] = True"
| "starts_with [] (p # ps) = False"
| "starts_with (c # cs) (p # ps) = (c = p \<and> starts_with cs ps)"

text \<open>\<open>String.prototype.includes\<close>.\<close>

fun js_includes :: "string \<Rightarrow> string \<Rightarrow> bool" where
  "js_includes [] pat = (pat = [])"
| "js_includes (c # cs) pat = (starts_with (c # cs) pat \<or> js_includes cs pat)"

text \<open>A non-empty string is truthy; \<open>undefined\<close> and the empty string are not.\<close>

fun truthy :: "string option \<Rightarrow> bool" where
  "truthy None = False"
| "truthy (Some s) = (s \<noteq> [])"

definition is_digit :: "char \<Rightarrow> bool" where
  "is_digit c = (let n = (of_char c :: nat) in 48 \<le> n \<and> n \<le> 57)"

definition digit_val :: "char \<Rightarrow> nat" where
  "digit_val c = of_char c - 48"

definition digits_val :: "string \<Rightarrow> nat" where
  "digits_val ds = foldl (\<lambda>a c. 10 * a + digit_val c) 0 ds"

definition is_ws :: "char \<Rightarrow> bool" where
  "is_ws c = (let n = (of_char c :: nat) in (9 \<le> n \<and> n \<le> 13) \<or> n = 32)"

text \<open>The decimal digits of a status code, as a template literal prints it.\<close>

definition digit_char :: "nat \<Rightarrow> char" where
  "digit_char d = ''0123456789'' ! (d mod 10)"

function show_nat :: "nat \<Rightarrow> string" where
  "show_nat n =
     (if n < 10 then [digit_char n] else show_nat (n div 10) @ [digit_char (n mod 10)])"
  by pat_completeness auto
termination
  by (relation "measure id") auto

declare show_nat.simps [simp del]

text \<open>
  The exponent part of a decimal literal: \<open>e\<close> or \<open>E\<close>, an optional sign and at
  least one digit. Without a digit the exponent is not part of the literal.
\<close>

definition exponent_part :: "string \<Rightarrow> int \<times> string" where
  "exponent_part s =
     (case s of
        [] \<Rightarrow> (0, s)
      | c # t \<Rightarrow>
          if c = CHR ''e'' \<or> c = CHR ''E'' then
            (let neg = (case t of [] \<Rightarrow> False | d # u \<Rightarrow> d = CHR ''-'');
                 t' = (case t of [] \<Rightarrow> t
                       | d # u \<Rightarrow> if d = CHR ''-'' \<or> d = CHR ''+'' then u else t);
                 ds = takeWhile is_digit t'
             in if ds = [] then (0, s)
                else ((if neg then - int (digits_val ds) else int (digits_val ds)),
                      dropWhile is_digit t'))
          else (0, s))"

definition scale10 :: "rat \<Rightarrow> int \<Rightarrow> rat" where
  "scale10 m ex = (if 0 \<le> ex then m * 10 ^ nat ex else m / 10 ^ nat (- ex))"

text \<open>
  The longest prefix of \<open>s\<close> that is an unsigned \<open>StrDecimalLiteral\<close>, with its
  value and the rest of the string.
\<close>

definition unsigned_decimal :: "string \<Rightarrow> (jsnum \<times> string) option" where
  "unsigned_decimal s =
     (if starts_with s ''Infinity'' then Some (PosInf, drop 8 s)
      else
        (let ip = takeWhile is_digit s;
             r1 = dropWhile is_digit s;
             fp = (case r1 of [] \<Rightarrow> []
                   | c # t \<Rightarrow> if c = CHR ''.'' then takeWhile is_digit t else []);
             r2 = (case r1 of [] \<Rightarrow> r1
                   | c # t \<Rightarrow> if c = CHR ''.'' then dropWhile is_digit t else r1)
         in if ip = [] \<and> fp = [] then None
            else
              (let mant = of_nat (digits_val ip) + of_nat (digits_val fp) / 10 ^ length fp;
                   ep = exponent_part r2
               in Some (Fin (scale10 mant (fst ep)), snd ep))))"

definition signed_decimal :: "string \<Rightarrow> (jsnum \<times> string) option" where
  "signed_decimal s =
     (case s of
        [] \<Rightarrow> None
      | c # t \<Rightarrow>
          if c = CHR ''-'' then
            (case unsigned_decimal t of None \<Rightarrow> None | Some (v, r) \<Rightarrow> Some (js_neg v, r))
          else if c = CHR ''+'' then unsigned_decimal t
          else unsigned_decimal s)"

text \<open>\<open>parseFloat\<close>: leading white space is skipped, the longest decimal prefix is read.\<close>

definition parseFloat :: "string \<Rightarrow> jsnum" where
  "parseFloat s =
     (case signed_decimal (dropWhile is_ws s) of None \<Rightarrow> NaN | Some (v, r) \<Rightarrow> v)"

text \<open>Digits of the literals \<open>0x\<close>, \<open>0o\<close> and \<open>0b\<close>.\<close>

definition radix_digit :: "char \<Rightarrow> nat option" where
  "radix_digit c =
     (let n = (of_char c :: nat)
      in if 48 \<le> n \<and> n \<le> 57 then Some (n - 48)
         else if 97 \<le> n \<and> n \<le> 102 then Some (n - 87)
         else if 65 \<le> n \<and> n \<le> 70 then Some (n - 55)
         else None)"

fun radix_val :: "nat \<Rightarrow> nat \<Rightarrow> string \<Rightarrow> nat option" where
  "radix_val b acc [] = Some acc"
| "radix_val b acc (c # cs) =
     (case radix_digit c of
        None \<Rightarrow> None
      | Some d \<Rightarrow> if d < b then radix_val b (b * acc + d) cs else None)"

definition radix_literal :: "string \<Rightarrow> jsnum option" where
  "radix_literal s =
     (case s of
        z # x # ds \<Rightarrow>
          if z = CHR ''0'' \<and> ds \<noteq> [] then
            (let b = (if x = CHR ''x'' \<or> x = CHR ''X'' then 16
                      else if x = CHR ''o'' \<or> x = CHR ''O'' then 8
                      else if x = CHR ''b'' \<or> x = CHR ''B'' then 2 else (0::nat))
             in if b = 0 then None
                else Some (case radix_val b 0 ds of None \<Rightarrow> NaN | Some n \<Rightarrow> Fin (of_nat n)))
          else None
      | _ \<Rightarrow> None)"

definition trim :: "string \<Rightarrow> string" where
  "trim s = rev (dropWhile is_ws (rev (dropWhile is_ws s)))"

text \<open>\<open>Number(s)\<close> on a string: the whole trimmed string must be a numeric literal.\<close>

definition string_to_number :: "string \<Rightarrow> jsnum" where
  "string_to_number s =
     (let t = trim s
      in if t = [] then Fin 0
         else case radix_literal t of
                Some n \<Rightarrow> n
              | None \<Rightarrow>
                  (case signed_decimal t of
                     None \<Rightarrow> NaN
                   | Some (v, r) \<Rightarrow> if r = [] then v else NaN))"

text \<open>\<open>Number(v)\<close>.\<close>

fun js_Number :: "jsval \<Rightarrow> jsnum" where
  "js_Number JUndefined = NaN"
| "js_Number JNull = Fin 0"
| "js_Number (JBool b) = Fin (if b then 1 else 0)"
| "js_Number (JNum n) = n"
| "js_Number (JStr s) = string_to_number s"
| "js_Number JObject = NaN"

section \<open>Configuration and the payment provider\<close>

text \<open>The fields of \<open>env\<close> that the payment code reads.\<close>

record env =
  node :: string
  paypalClientId :: "string option"
  paypalClientSecret :: "string option"
  paypalUseSandbox :: bool
  paypalSkipVerification :: bool

record PayPalAccessTokenResponse =
  access_token :: string
  expires_in :: int

text \<open>A capture; \<open>amount.currency_code\<close> and \<open>amount.value\<close> are the two amount fields.\<close>

record PayPalCaptureDetails =
  capture_id :: string
  capture_status :: string
  currency_code :: string
  amount_value :: string

text \<open>
  A purchase unit; \<open>unit_captures\<close> is \<open>payments?.captures\<close>, absent when either
  \<open>payments\<close> or \<open>captures\<close> is.
\<close>

record purchase_unit =
  unit_captures :: "PayPalCaptureDetails list option"

record PayPalOrderResponse =
  order_id :: string
  order_status :: string
  purchase_units :: "purchase_unit list"

text \<open>
  What one \<open>fetch\<close> gives: it rejects with a message, or it resolves to a response with
  a status, the \<open>name\<close> field of its error body (read when the status is not 2xx) and
  its JSON body (read when the status is 2xx: the data, or the message \<open>json()\<close>
  rejects with).
\<close>

datatype 'a reply = FetchThrows string | Reply nat "string option" "string + 'a"

datatype provider_request = TokenRequest | CaptureRequest string | OrderRequest string

text \<open>
  The process state of the PayPal service and the provider it talks to: the token
  cache, the clock in milliseconds, the replies each endpoint will give to the next
  requests, the requests sent so far and the back-off delays slept so far. The clock
  moves only while the service sleeps.
\<close>

record net =
  accessTokenCache :: "(string \<times> int) option"
  clock :: int
  tokenReplies :: "PayPalAccessTokenResponse reply list"
  captureReplies :: "PayPalCaptureDetails reply list"
  orderReplies :: "PayPalOrderResponse reply list"
  requests :: "provider_request list"
  delays :: "int list"

text \<open>
  An asynchronous call returns, throws an \<open>Error\<close> with a message, or is still
  waiting for a reply the provider never gives.
\<close>

datatype 'a outcome = Returns 'a | Throws string | Unanswered

text \<open>What the \<open>try\<close> block of a provider call does with one reply.\<close>

datatype 'a attempt = Again | Caught string | Got 'a

abbreviation maxRetries :: nat where
  "maxRetries \<equiv> 3"

definition response_ok :: "nat \<Rightarrow> bool" where
  "response_ok status = (200 \<le> status \<and> status \<le> 299)"

definition sleep :: "int \<Rightarrow> net \<Rightarrow> net" where
  "sleep ms w = w\<lparr>clock := clock w + ms, delays := delays w @ [ms]\<rparr>"

definition retryDelay :: "nat \<Rightarrow> int" where
  "retryDelay retryCount = 1000 * (int retryCount + 1)"

definition network_error :: "string \<Rightarrow> bool" where
  "network_error m = (js_includes m ''fetch'' \<or> js_includes m ''network'')"

definition environment_name :: "env \<Rightarrow> string" where
  "environment_name e = (if paypalUseSandbox e then ''sandbox'' else ''production'')"

definition service_unavailable_message :: string where
  "service_unavailable_message =
     ''PayPal service is currently unavailable. Please try again in a few moments.''"

subsection \<open>getAccessToken\<close>

definition credentials_message :: string where
  "credentials_message =
     ''PayPal credentials not configured. Please set PAYPAL_CLIENT_ID and PAYPAL_CLIENT_SECRET.''"

definition authentication_failed_message :: "nat \<Rightarrow> string" where
  "authentication_failed_message status =
     ''PayPal authentication failed: '' @ show_nat status @
     ''. Check that your PAYPAL_CLIENT_ID and PAYPAL_CLIENT_SECRET are correct and match the environment (sandbox/production).''"

definition cached_token :: "net \<Rightarrow> string option" where
  "cached_token w =
     (case accessTokenCache w of
        None \<Rightarrow> None
      | Some (token, expiresAt) \<Rightarrow> if clock w < expiresAt then Some token else None)"

definition token_try :: "nat \<Rightarrow> PayPalAccessTokenResponse reply \<Rightarrow> PayPalAccessTokenResponse attempt" where
  "token_try retryCount r =
     (case r of
        FetchThrows m \<Rightarrow> Caught m
      | Reply status name body \<Rightarrow>
          if \<not> response_ok status then
            (if status = 503 \<or> (name = Some ''SERVICE_UNAVAILABLE'' \<and> retryCount < maxRetries)
             then Again
             else Caught (authentication_failed_message status))
          else (case body of Inl m \<Rightarrow> Caught m | Inr d \<Rightarrow> Got d))"

text \<open>
  The recursion ends because every request takes a reply from the script; the retry
  count does not bound it.
\<close>

function getAccessToken :: "env \<Rightarrow> nat \<Rightarrow> net \<Rightarrow> string outcome \<times> net" where
  "getAccessToken e retryCount w =
     (case cached_token w of
        Some token \<Rightarrow> (Returns token, w)
      | None \<Rightarrow>
          if \<not> truthy (paypalClientId e) \<or> \<not> truthy (paypalClientSecret e)
          then (Throws credentials_message, w)
          else
            (case tokenReplies w of
               [] \<Rightarrow> (Unanswered, w\<lparr>requests := requests w @ [TokenRequest]\<rparr>)
             | r # rs \<Rightarrow>
                 (let w1 = w\<lparr>tokenReplies := rs, requests := requests w @ [TokenRequest]\<rparr>
                  in case token_try retryCount r of
                       Again \<Rightarrow>
                         getAccessToken e (retryCount + 1) (sleep (retryDelay retryCount) w1)
                     | Caught m \<Rightarrow>
                         if retryCount < maxRetries \<and> network_error m
                         then getAccessToken e (retryCount + 1) (sleep (retryDelay retryCount) w1)
                         else (Throws (''Failed to authenticate with PayPal: '' @ m), w1)
                     | Got d \<Rightarrow>
                         (Returns (access_token d),
                          w1\<lparr>accessTokenCache :=
                               Some (access_token d, clock w1 + (expires_in d - 60) * 1000)\<rparr>))))"
  by pat_completeness auto
termination
  by (relation "measure (\<lambda>(e, retryCount, w). length (tokenReplies w))") (auto simp: sleep_def)

declare getAccessToken.simps [simp del]

subsection \<open>verifyPayPalOrder\<close>

definition order_try :: "nat \<Rightarrow> PayPalOrderResponse reply \<Rightarrow> PayPalOrderResponse attempt" where
  "order_try retryCount r =
     (case r of
        FetchThrows m \<Rightarrow> Caught m
      | Reply status name body \<Rightarrow>
          if \<not> response_ok status then
            (if (status = 503 \<or> name = Some ''SERVICE_UNAVAILABLE'') \<and> retryCount < maxRetries
             then Again
             else if name = Some ''SERVICE_UNAVAILABLE'' then Caught service_unavailable_message
             else Caught (''PayPal order verification failed: '' @ show_nat status))
          else (case body of Inl m \<Rightarrow> Caught m | Inr d \<Rightarrow> Got d))"

text \<open>The recursion ends because every retry finds the retry count below \<open>maxRetries\<close>.\<close>

function verifyPayPalOrder ::
  "env \<Rightarrow> string \<Rightarrow> nat \<Rightarrow> net \<Rightarrow> PayPalOrderResponse outcome \<times> net" where
  "verifyPayPalOrder e orderId retryCount w =
     (case getAccessToken e 0 w of
        (Unanswered, w0) \<Rightarrow> (Unanswered, w0)
      | (Throws m, w0) \<Rightarrow> (Throws m, w0)
      | (Returns token, w0) \<Rightarrow>
          (case orderReplies w0 of
             [] \<Rightarrow> (Unanswered, w0\<lparr>requests := requests w0 @ [OrderRequest orderId]\<rparr>)
           | r # rs \<Rightarrow>
               (let w1 = w0\<lparr>orderReplies := rs,
                             requests := requests w0 @ [OrderRequest orderId]\<rparr>
                in case order_try retryCount r of
                     Again \<Rightarrow>
                       verifyPayPalOrder e orderId (retryCount + 1)
                         (sleep (retryDelay retryCount) w1)
                   | Caught m \<Rightarrow>
                       if retryCount < maxRetries \<and> network_error m
                       then verifyPayPalOrder e orderId (retryCount + 1)
                              (sleep (retryDelay retryCount) w1)
                       else (Throws (''Failed to verify PayPal order: '' @ m), w1)
                   | Got d \<Rightarrow> (Returns d, w1))))"
  by pat_completeness auto
termination
  by (relation "measure (\<lambda>(e, orderId, retryCount, w). maxRetries - retryCount)")
    (auto simp: order_try_def split: reply.splits if_splits sum.splits)

declare verifyPayPalOrder.simps [simp del]

subsection \<open>verifyPayPalCapture\<close>

definition capture_not_found_message :: "env \<Rightarrow> string \<Rightarrow> string" where
  "capture_not_found_message e captureId =
     ''PayPal capture not found (404). The capture ID '' @ captureId @
     '' does not exist in the '' @ environment_name e @
     '' environment. This usually means the frontend and backend are using different PayPal apps or accounts.''"

definition capture_try ::
  "env \<Rightarrow> string \<Rightarrow> nat \<Rightarrow> PayPalCaptureDetails reply \<Rightarrow> PayPalCaptureDetails attempt" where
  "capture_try e captureId retryCount r =
     (case r of
        FetchThrows m \<Rightarrow> Caught m
      | Reply status name body \<Rightarrow>
          if \<not> response_ok status then
            (if (status = 503 \<or> name = Some ''SERVICE_UNAVAILABLE'') \<and> retryCount < maxRetries
             then Again
             else if status = 404 then Caught (capture_not_found_message e captureId)
             else if name = Some ''SERVICE_UNAVAILABLE'' then Caught service_unavailable_message
             else Caught (''PayPal capture verification failed: '' @ show_nat status))
          else (case body of Inl m \<Rightarrow> Caught m | Inr d \<Rightarrow> Got d))"

function verifyPayPalCapture ::
  "env \<Rightarrow> string \<Rightarrow> nat \<Rightarrow> net \<Rightarrow> PayPalCaptureDetails outcome \<times> net" where
  "verifyPayPalCapture e captureId retryCount w =
     (case getAccessToken e 0 w of
        (Unanswered, w0) \<Rightarrow> (Unanswered, w0)
      | (Throws m, w0) \<Rightarrow> (Throws m, w0)
      | (Returns token, w0) \<Rightarrow>
          (case captureReplies w0 of
             [] \<Rightarrow> (Unanswered, w0\<lparr>requests := requests w0 @ [CaptureRequest captureId]\<rparr>)
           | r # rs \<Rightarrow>
               (let w1 = w0\<lparr>captureReplies := rs,
                             requests := requests w0 @ [CaptureRequest captureId]\<rparr>
                in case capture_try e captureId retryCount r of
                     Again \<Rightarrow>
                       verifyPayPalCapture e captureId (retryCount + 1)
                         (sleep (retryDelay retryCount) w1)
                   | Caught m \<Rightarrow>
                       if retryCount < maxRetries \<and> network_error m
                       then verifyPayPalCapture e captureId (retryCount + 1)
                              (sleep (retryDelay retryCount) w1)
                       else (Throws m, w1)
                   | Got d \<Rightarrow> (Returns d, w1))))"
  by pat_completeness auto
termination
  by (relation "measure (\<lambda>(e, captureId, retryCount, w). maxRetries - retryCount)")
    (auto simp: capture_try_def split: reply.splits if_splits sum.splits)

declare verifyPayPalCapture.simps [simp del]

subsection \<open>verifyPayPalPayment\<close>

record verification =
  verified :: bool
  captureDetails :: "PayPalCaptureDetails option"
  orderDetails :: "PayPalOrderResponse option"

definition both_not_found_message :: "string \<Rightarrow> string \<Rightarrow> string" where
  "both_not_found_message captureId orderId =
     ''Payment verification failed: Both capture ('' @ captureId @ '') and order ('' @ orderId @
     '') not found in PayPal. This indicates an environment mismatch - the payment was created with different PayPal credentials than the server is using. Please ensure your frontend PayPal Client ID and backend PayPal credentials are from the same PayPal app and environment (both sandbox or both production).''"

definition order_not_found_message :: "string \<Rightarrow> string" where
  "order_not_found_message orderId =
     ''Payment verification failed: Order ('' @ orderId @
     '') not found in PayPal. This may happen if the order was created in a different environment (sandbox vs production). Please ensure your PayPal credentials match the environment used for payment.''"

text \<open>
  The three checks both strategies run on a capture, in the source's order: the status,
  the currency, the amount. A capture that fails one is answered with
  \<open>verified: false\<close>.
\<close>

definition capture_accepted :: "PayPalCaptureDetails \<Rightarrow> jsnum \<Rightarrow> string \<Rightarrow> bool" where
  "capture_accepted c expectedAmount expectedCurrency =
     (if capture_status c \<noteq> ''COMPLETED'' then False
      else
        (let capturedAmount = parseFloat (amount_value c);
             capturedCurrency = currency_code c
         in if capturedCurrency \<noteq> expectedCurrency then False
            else
              (let amountDifference = js_abs (js_sub capturedAmount expectedAmount)
               in if js_gt amountDifference (Fin (1 / 100)) then False else True)))"

text \<open>\<open>orderDetails.purchase_units?.[0]?.payments?.captures\<close>.\<close>

definition first_unit_captures :: "PayPalOrderResponse \<Rightarrow> PayPalCaptureDetails list option" where
  "first_unit_captures od =
     (case purchase_units od of [] \<Rightarrow> None | u # us \<Rightarrow> unit_captures u)"

definition is404 :: "string \<Rightarrow> bool" where
  "is404 m = (js_includes m ''404'' \<or> js_includes m ''RESOURCE_NOT_FOUND'')"

text \<open>Strategy 2: verification through the order.\<close>

definition verify_via_order ::
  "env \<Rightarrow> string \<Rightarrow> jsnum \<Rightarrow> string \<Rightarrow> string option \<Rightarrow> net \<Rightarrow> verification outcome \<times> net" where
  "verify_via_order e orderId expectedAmount expectedCurrency captureId w =
     (case verifyPayPalOrder e orderId 0 w of
        (Unanswered, w1) \<Rightarrow> (Unanswered, w1)
      | (Throws m, w1) \<Rightarrow>
          if is404 m then
            (Throws (case captureId of
                       None \<Rightarrow> order_not_found_message orderId
                     | Some cid \<Rightarrow>
                         if cid \<noteq> [] then both_not_found_message cid orderId
                         else order_not_found_message orderId), w1)
          else (Throws m, w1)
      | (Returns od, w1) \<Rightarrow>
          if order_status od \<noteq> ''COMPLETED''
          then (Returns \<lparr>verified = False, captureDetails = None, orderDetails = Some od\<rparr>, w1)
          else
            (case first_unit_captures od of
               None \<Rightarrow>
                 (Returns \<lparr>verified = False, captureDetails = None, orderDetails = Some od\<rparr>, w1)
             | Some [] \<Rightarrow>
                 (Returns \<lparr>verified = False, captureDetails = None, orderDetails = Some od\<rparr>, w1)
             | Some (c # cs) \<Rightarrow>
                 (Returns \<lparr>verified = capture_accepted c expectedAmount expectedCurrency,
                            captureDetails = Some c, orderDetails = Some od\<rparr>, w1)))"

text \<open>
  Strategy 1 when a capture id is given, strategy 2 when it is not or when the capture
  lookup threw.
\<close>

definition verifyPayPalPayment ::
  "env \<Rightarrow> string \<Rightarrow> jsnum \<Rightarrow> string \<Rightarrow> string option \<Rightarrow> net \<Rightarrow> verification outcome \<times> net" where
  "verifyPayPalPayment e orderId expectedAmount expectedCurrency captureId w =
     (case captureId of
        None \<Rightarrow> verify_via_order e orderId expectedAmount expectedCurrency captureId w
      | Some cid \<Rightarrow>
          if cid = [] then verify_via_order e orderId expectedAmount expectedCurrency captureId w
          else
            (case verifyPayPalCapture e cid 0 w of
               (Unanswered, w1) \<Rightarrow> (Unanswered, w1)
             | (Throws m, w1) \<Rightarrow>
                 verify_via_order e orderId expectedAmount expectedCurrency captureId w1
             | (Returns c, w1) \<Rightarrow>
                 if \<not> capture_accepted c expectedAmount expectedCurrency
                 then (Returns \<lparr>verified = False, captureDetails = Some c, orderDetails = None\<rparr>, w1)
                 else
                   (case verifyPayPalOrder e orderId 0 w1 of
                      (Unanswered, w2) \<Rightarrow> (Unanswered, w2)
                    | (Throws m, w2) \<Rightarrow>
                        (Returns \<lparr>verified = True, captureDetails = Some c, orderDetails = None\<rparr>, w2)
                    | (Returns od, w2) \<Rightarrow>
                        (Returns \<lparr>verified = True, captureDetails = Some c,
                                   orderDetails = Some od\<rparr>, w2))))"

section \<open>The stores\<close>

datatype PaymentProvider = paypal | stripe | manual

datatype PaymentStatus = pending | completed | failed | refunded

record payment_metadata =
  meta_captureId :: "string option"
  meta_orderId :: string
  meta_verified :: bool
  verificationSkipped :: bool
  sandbox :: bool
  verifiedAt :: int

record IPayment =
  pay_user :: string
  provider :: PaymentProvider
  pay_amount :: jsnum
  pay_currency :: string
  pay_status :: PaymentStatus
  externalId :: "string option"
  metadata :: "payment_metadata option"

text \<open>A user document as a request holds it in memory: the id and the balance.\<close>

record user_doc =
  doc_id :: string
  balance :: jsnum

text \<open>The database: the balance of every user, and the payments in insertion order.\<close>

record store =
  users :: "string \<rightharpoonup> jsnum"
  payments :: "IPayment list"

datatype store_error = DuplicateKey

definition findById :: "store \<Rightarrow> string \<Rightarrow> user_doc option" where
  "findById st i =
     (case users st i of None \<Rightarrow> None | Some b \<Rightarrow> Some \<lparr>doc_id = i, balance = b\<rparr>)"

text \<open>\<open>user.save()\<close> writes the balance the document holds.\<close>

definition save :: "user_doc \<Rightarrow> store \<Rightarrow> store" where
  "save u st = st\<lparr>users := (users st)(doc_id u \<mapsto> balance u)\<rparr>"

text \<open>\<open>PaymentModel.findOne({ externalId: orderId })\<close>.\<close>

definition findOne_externalId :: "store \<Rightarrow> string \<Rightarrow> IPayment option" where
  "findOne_externalId st oid = find (\<lambda>p. externalId p = Some oid) (payments st)"

text \<open>The unique index of the payment schema, on \<open>provider\<close> and \<open>externalId\<close>.\<close>

definition index_key :: "IPayment \<Rightarrow> PaymentProvider \<times> string option" where
  "index_key p = (provider p, externalId p)"

definition unique_index :: "IPayment list \<Rightarrow> bool" where
  "unique_index ps = distinct (map index_key ps)"

text \<open>\<open>PaymentModel.create\<close>: the store rejects a second document with the same key.\<close>

definition create :: "IPayment \<Rightarrow> store \<Rightarrow> store_error + store" where
  "create p st =
     (if index_key p \<in> set (map index_key (payments st)) then Inl DuplicateKey
      else Inr (st\<lparr>payments := payments st @ [p]\<rparr>))"

section \<open>recordPayPalPayment\<close>

record AuthUser =
  user_id :: string
  user_email :: string

text \<open>
  The request: the authenticated user, if any, and the fields of the body. The currency
  and the capture id are strings when they are present.
\<close>

record request =
  req_user :: "AuthUser option"
  body_amount :: jsval
  body_currency :: "string option"
  body_orderId :: jsval
  body_captureId :: "string option"

record response =
  status :: nat
  message :: string
  res_balance :: "jsnum option"
  res_error :: "string option"
  suggestion :: "string option"
  retryable :: bool

definition json_message :: "nat \<Rightarrow> string \<Rightarrow> response" where
  "json_message code m =
     \<lparr>status = code, message = m, res_balance = None, res_error = None,
      suggestion = None, retryable = False\<rparr>"

text \<open>What a request that passed the first checks carries through the handler.\<close>

record submission =
  sub_user :: user_doc
  sub_userId :: string
  parsedAmount :: jsnum
  sub_orderId :: string
  sub_currency :: string
  sub_captureId :: "string option"

text \<open>Lines 31 to 40: a balance above 1000 is in the old format; it is divided and saved.\<close>

definition normalize_balance :: "user_doc \<Rightarrow> store \<Rightarrow> user_doc \<times> store" where
  "normalize_balance u st =
     (if js_gt (balance u) (Fin 1000)
      then (let u' = u\<lparr>balance := js_div (balance u) (Fin 1000)\<rparr> in (u', save u' st))
      else (u, st))"

text \<open>Line 55.\<close>

definition amountInPounds :: "submission \<Rightarrow> jsnum" where
  "amountInPounds sub = js_div (parsedAmount sub) (Fin 1000)"

text \<open>Lines 11 to 50: the checks of the request, the user, the balance format, the pre-check.\<close>

definition load_and_precheck :: "request \<Rightarrow> store \<Rightarrow> (response + submission) \<times> store" where
  "load_and_precheck req st =
     (case req_user req of
        None \<Rightarrow> (Inl (json_message 401 ''Unauthorized''), st)
      | Some au \<Rightarrow>
          (let amt = js_Number (body_amount req)
           in if \<not> isFinite amt \<or> js_le amt (Fin 0)
              then (Inl (json_message 400 ''A valid amount is required''), st)
              else
                (case body_orderId req of
                   JStr oid \<Rightarrow>
                     if oid = [] then (Inl (json_message 400 ''orderId is required''), st)
                     else
                       (case findById st (user_id au) of
                          None \<Rightarrow> (Inl (json_message 404 ''User not found''), st)
                        | Some u \<Rightarrow>
                            (case normalize_balance u st of
                               (u1, st1) \<Rightarrow>
                                 (case findOne_externalId st1 oid of
                                    Some existingPayment \<Rightarrow>
                                      (Inl ((json_message 409
                                               ''This PayPal order has already been recorded.'')
                                             \<lparr>res_balance := Some (balance u1)\<rparr>), st1)
                                  | None \<Rightarrow>
                                      (Inr \<lparr>sub_user = u1, sub_userId = user_id au,
                                            parsedAmount = amt, sub_orderId = oid,
                                            sub_currency =
                                              (case body_currency req of
                                                 None \<Rightarrow> ''GBP'' | Some c \<Rightarrow> c),
                                            sub_captureId = body_captureId req\<rparr>, st1))))
                 | _ \<Rightarrow> (Inl (json_message 400 ''orderId is required''), st))))"

definition development_error :: "env \<Rightarrow> string \<Rightarrow> string option" where
  "development_error e m = (if node e = ''development'' then Some m else None)"

definition permissions_message :: string where
  \<open>permissions_message =
     ''PayPal verification failed due to insufficient permissions. Your PayPal app needs to have the following scopes enabled: "https://uri.paypal.com/services/payments/realtimepayment" and "https://uri.paypal.com/services/payments/payment/read". Please check your PayPal app settings in the developer dashboard.''\<close>

definition permissions_suggestion :: string where
  "permissions_suggestion =
     ''Go to https://developer.paypal.com/dashboard -> Your App -> Settings -> Advanced Options -> Enable the required scopes''"

definition temporarily_unavailable_message :: string where
  "temporarily_unavailable_message =
     ''PayPal service is temporarily unavailable. This is usually a temporary issue with PayPal's servers. Please wait a moment and try again.''"

definition mismatch_user_message :: string where
  "mismatch_user_message =
     ''Payment verification failed: The payment could not be verified. '' @
     ''This usually means the frontend and backend are using different PayPal apps or the app lacks required permissions. '' @
     ''Please ensure both use the same PayPal app credentials and the app has payment read permissions enabled.''"

text \<open>Lines 82 to 124: the response to an error thrown by the verification.\<close>

definition verification_error_response :: "env \<Rightarrow> string \<Rightarrow> response" where
  "verification_error_response e m =
     (if js_includes m ''401'' \<or> js_includes m ''NOT_AUTHORIZED''
         \<or> js_includes m ''insufficient permissions''
      then (json_message 502 permissions_message)
             \<lparr>res_error := development_error e m, suggestion := Some permissions_suggestion\<rparr>
      else if js_includes m ''SERVICE_UNAVAILABLE''
              \<or> js_includes m ''service is currently unavailable''
      then (json_message 503 temporarily_unavailable_message)
             \<lparr>res_error := development_error e m, retryable := True\<rparr>
      else
        (let userMessage =
           (if js_includes m ''Order not found'' \<or> js_includes m ''Both capture''
            then mismatch_user_message
            else if js_includes m ''authentication''
            then ''PayPal authentication failed. Please check server configuration.''
            else if js_includes m ''unavailable''
            then ''PayPal service is temporarily unavailable. Please try again in a few moments.''
            else ''Failed to verify payment with PayPal.'')
         in (json_message 502 userMessage)\<lparr>res_error := development_error e m\<rparr>))"

text \<open>Lines 57 to 137: the verification, skipped in the sandbox when so configured.\<close>

definition verify_submission ::
  "env \<Rightarrow> submission \<Rightarrow> net \<Rightarrow> (response + verification) outcome \<times> net" where
  "verify_submission e sub w =
     (if paypalSkipVerification e \<and> paypalUseSandbox e
      then (Returns (Inr \<lparr>verified = True, captureDetails = None, orderDetails = None\<rparr>), w)
      else
        (case verifyPayPalPayment e (sub_orderId sub) (amountInPounds sub) (sub_currency sub)
                (sub_captureId sub) w of
           (Unanswered, w1) \<Rightarrow> (Unanswered, w1)
         | (Throws m, w1) \<Rightarrow> (Returns (Inl (verification_error_response e m)), w1)
         | (Returns v, w1) \<Rightarrow>
             if \<not> verified v
             then (Returns (Inl (json_message 402
                     ''Payment verification failed. The payment was not completed successfully.'')),
                   w1)
             else (Returns (Inr v), w1)))"

text \<open>Lines 143 to 158: the document handed to \<open>PaymentModel.create\<close>.\<close>

definition new_payment :: "env \<Rightarrow> submission \<Rightarrow> verification \<Rightarrow> int \<Rightarrow> IPayment" where
  "new_payment e sub v now =
     \<lparr>pay_user = doc_id (sub_user sub),
      provider = paypal,
      pay_amount = parsedAmount sub,
      pay_currency = sub_currency sub,
      pay_status = completed,
      externalId = Some (sub_orderId sub),
      metadata = Some
        \<lparr>meta_captureId =
           (case captureDetails v of
              None \<Rightarrow> sub_captureId sub
            | Some c \<Rightarrow> if capture_id c \<noteq> [] then Some (capture_id c) else sub_captureId sub),
         meta_orderId = sub_orderId sub,
         meta_verified = (\<not> paypalSkipVerification e),
         verificationSkipped = (paypalSkipVerification e \<and> paypalUseSandbox e),
         sandbox = paypalUseSandbox e,
         verifiedAt = now\<rparr>\<rparr>"

text \<open>
  Lines 142 to 169: the insert. On the duplicate-key error the user is read again and
  the request ends; otherwise it goes on to the credit.
\<close>

definition record_payment ::
  "env \<Rightarrow> submission \<Rightarrow> verification \<Rightarrow> int \<Rightarrow> store \<Rightarrow> (response + unit) \<times> store" where
  "record_payment e sub v now st =
     (case create (new_payment e sub v now) st of
        Inl DuplicateKey \<Rightarrow>
          (Inl ((json_message 200 ''Payment already processed.'')
                  \<lparr>res_balance :=
                     Some (case findById st (sub_userId sub) of
                             None \<Rightarrow> balance (sub_user sub)
                           | Some updatedUser \<Rightarrow> balance updatedUser)\<rparr>), st)
      | Inr st1 \<Rightarrow> (Inr (), st1))"

text \<open>
  Lines 171 to 185: the credit. The balance written is the one of the document loaded
  at line 26 plus the amount.
\<close>

definition credit_message :: string where
  "credit_message = ''Payment verified and balance updated successfully.''"

definition credit_balance :: "submission \<Rightarrow> store \<Rightarrow> response \<times> store" where
  "credit_balance sub st =
     (let u = (sub_user sub)\<lparr>balance := js_add (balance (sub_user sub)) (amountInPounds sub)\<rparr>
      in ((json_message 200 credit_message)
            \<lparr>res_balance := Some (balance u)\<rparr>, save u st))"

text \<open>The handler, run from its first line to its response with no other request between.\<close>

definition recordPayPalPayment ::
  "env \<Rightarrow> request \<Rightarrow> store \<times> net \<Rightarrow> response outcome \<times> store \<times> net" where
  "recordPayPalPayment e req sw =
     (case sw of
        (st, w) \<Rightarrow>
          (case load_and_precheck req st of
             (Inl res, st1) \<Rightarrow> (Returns res, st1, w)
           | (Inr sub, st1) \<Rightarrow>
               (case verify_submission e sub w of
                  (Unanswered, w1) \<Rightarrow> (Unanswered, st1, w1)
                | (Throws m, w1) \<Rightarrow> (Throws m, st1, w1)
                | (Returns (Inl res), w1) \<Rightarrow> (Returns res, st1, w1)
                | (Returns (Inr v), w1) \<Rightarrow>
                    (case record_payment e sub v (clock w1) st1 of
                       (Inl res, st2) \<Rightarrow> (Returns res, st2, w1)
                     | (Inr u, st2) \<Rightarrow>
                         (case credit_balance sub st2 of
                            (res, st3) \<Rightarrow> (Returns res, st3, w1))))))"

section \<open>Requests that run at the same time\<close>

text \<open>
  The handler gives up control at every \<open>await\<close>, and other requests may run on the same
  stores between two of its store operations. A request in flight is at one of these
  stages: before its first line; with the user loaded and the divided balance not yet
  saved; before the pre-check; before the verification; before the insert; before the
  second read of the user that follows a rejected insert; before the credit; answered.
\<close>

datatype stage =
    AtStart request
  | Normalizing submission
  | Prechecking submission
  | Verifying submission
  | Recording submission verification
  | Rereading submission
  | Crediting submission
  | Finished "response outcome"

text \<open>Lines 11 to 33: the checks of the request and the read of the user.\<close>

definition load_user :: "request \<Rightarrow> store \<Rightarrow> stage" where
  "load_user req st =
     (case req_user req of
        None \<Rightarrow> Finished (Returns (json_message 401 ''Unauthorized''))
      | Some au \<Rightarrow>
          (let amt = js_Number (body_amount req)
           in if \<not> isFinite amt \<or> js_le amt (Fin 0)
              then Finished (Returns (json_message 400 ''A valid amount is required''))
              else
                (case body_orderId req of
                   JStr oid \<Rightarrow>
                     if oid = [] then Finished (Returns (json_message 400 ''orderId is required''))
                     else
                       (case findById st (user_id au) of
                          None \<Rightarrow> Finished (Returns (json_message 404 ''User not found''))
                        | Some u \<Rightarrow>
                            (let sub = \<lparr>sub_user = u, sub_userId = user_id au,
                                        parsedAmount = amt, sub_orderId = oid,
                                        sub_currency =
                                          (case body_currency req of
                                             None \<Rightarrow> ''GBP'' | Some c \<Rightarrow> c),
                                        sub_captureId = body_captureId req\<rparr>
                             in if js_gt (balance u) (Fin 1000)
                                then Normalizing
                                       (sub\<lparr>sub_user := u\<lparr>balance := js_div (balance u) (Fin 1000)\<rparr>\<rparr>)
                                else Prechecking sub))
                 | _ \<Rightarrow> Finished (Returns (json_message 400 ''orderId is required'')))))"

text \<open>Lines 43 to 50: the pre-check.\<close>

definition precheck :: "submission \<Rightarrow> store \<Rightarrow> stage" where
  "precheck sub st =
     (case findOne_externalId st (sub_orderId sub) of
        Some existingPayment \<Rightarrow>
          Finished (Returns ((json_message 409 ''This PayPal order has already been recorded.'')
                               \<lparr>res_balance := Some (balance (sub_user sub))\<rparr>))
      | None \<Rightarrow> Verifying sub)"

text \<open>Lines 162 to 166: the answer to a rejected insert, with the user read again.\<close>

definition already_processed :: "submission \<Rightarrow> store \<Rightarrow> response" where
  "already_processed sub st =
     (json_message 200 ''Payment already processed.'')
       \<lparr>res_balance :=
          Some (case findById st (sub_userId sub) of
                  None \<Rightarrow> balance (sub_user sub)
                | Some updatedUser \<Rightarrow> balance updatedUser)\<rparr>"

text \<open>
  One step of a request: the code up to and with its next store operation. The calls
  to the provider that one verification makes are kept together; they do not touch
  the stores.
\<close>

definition step :: "env \<Rightarrow> stage \<Rightarrow> store \<times> net \<Rightarrow> stage \<times> store \<times> net" where
  "step e t sw =
     (case sw of
        (st, w) \<Rightarrow>
          (case t of
             AtStart req \<Rightarrow> (load_user req st, st, w)
           | Normalizing sub \<Rightarrow> (Prechecking sub, save (sub_user sub) st, w)
           | Prechecking sub \<Rightarrow> (precheck sub st, st, w)
           | Verifying sub \<Rightarrow>
               (case verify_submission e sub w of
                  (Unanswered, w1) \<Rightarrow> (Finished Unanswered, st, w1)
                | (Throws m, w1) \<Rightarrow> (Finished (Throws m), st, w1)
                | (Returns (Inl res), w1) \<Rightarrow> (Finished (Returns res), st, w1)
                | (Returns (Inr v), w1) \<Rightarrow> (Recording sub v, st, w1))
           | Recording sub v \<Rightarrow>
               (case create (new_payment e sub v (clock w)) st of
                  Inl DuplicateKey \<Rightarrow> (Rereading sub, st, w)
                | Inr st1 \<Rightarrow> (Crediting sub, st1, w))
           | Rereading sub \<Rightarrow> (Finished (Returns (already_processed sub st)), st, w)
           | Crediting sub \<Rightarrow>
               (case credit_balance sub st of
                  (res, st1) \<Rightarrow> (Finished (Returns res), st1, w))
           | Finished r \<Rightarrow> (Finished r, st, w)))"

text \<open>A schedule names, step by step, the request that runs next.\<close>

fun run :: "env \<Rightarrow> nat list \<Rightarrow> stage list \<Rightarrow> store \<times> net \<Rightarrow> stage list \<times> store \<times> net" where
  "run e [] ts sw = (ts, sw)"
| "run e (i # sched) ts sw =
     (if i < length ts
      then (case step e (ts ! i) sw of (t, sw1) \<Rightarrow> run e sched (ts[i := t]) sw1)
      else run e sched ts sw)"

text \<open>The order a request is about to credit, if it has reached the credit.\<close>

fun crediting :: "stage \<Rightarrow> string option" where
  "crediting (Crediting sub) = Some (sub_orderId sub)"
| "crediting t = None"

text \<open>The orders whose credit a schedule runs, in the order of the credits.\<close>

fun credited_orders :: "env \<Rightarrow> nat list \<Rightarrow> stage list \<Rightarrow> store \<times> net \<Rightarrow> string list" where
  "credited_orders e [] ts sw = []"
| "credited_orders e (i # sched) ts sw =
     (if i < length ts
      then (case step e (ts ! i) sw of
              (t, sw1) \<Rightarrow>
                (case crediting (ts ! i) of None \<Rightarrow> [] | Some oid \<Rightarrow> [oid])
                @ credited_orders e sched (ts[i := t]) sw1)
      else credited_orders e sched ts sw)"

text \<open>An order is recorded when the store holds a paypal payment with its id.\<close>

definition recorded :: "store \<Rightarrow> string \<Rightarrow> bool" where
  "recorded st oid = ((paypal, Some oid) \<in> set (map index_key (payments st)))"

text \<open>
  What holds of the requests in flight at every moment: no two are about to credit the
  same order, and an order about to be credited is recorded.
\<close>

definition credit_invariant :: "stage list \<Rightarrow> store \<Rightarrow> bool" where
  "credit_invariant ts st =
     ((\<forall>i < length ts. \<forall>j < length ts. \<forall>oid.
         crediting (ts ! i) = Some oid \<and> crediting (ts ! j) = Some oid \<longrightarrow> i = j)
      \<and> (\<forall>i < length ts. \<forall>oid. crediting (ts ! i) = Some oid \<longrightarrow> recorded st oid))"

text \<open>The requests sent to the order endpoint and to the capture endpoint.\<close>

fun order_requests :: "provider_request list \<Rightarrow> nat" where
  "order_requests [] = 0"
| "order_requests (OrderRequest oid # rs) = Suc (order_requests rs)"
| "order_requests (r # rs) = order_requests rs"

fun capture_requests :: "provider_request list \<Rightarrow> nat" where
  "capture_requests [] = 0"
| "capture_requests (CaptureRequest cid # rs) = Suc (capture_requests rs)"
| "capture_requests (r # rs) = capture_requests rs"

text \<open>The errors of the provider calls begin with the words of their catch blocks.\<close>

definition provider_error :: "string \<Rightarrow> bool" where
  "provider_error m = (starts_with m ''Failed to '' \<or> m = credentials_message)"

text \<open>The same request submitted twice, the second after the first has been answered.\<close>

definition submit_twice ::
  "env \<Rightarrow> request \<Rightarrow> store \<times> net \<Rightarrow> response outcome \<times> response outcome \<times> store \<times> net" where
  "submit_twice e req sw =
     (case recordPayPalPayment e req sw of
        (r1, sw1) \<Rightarrow> (case recordPayPalPayment e req sw1 of (r2, sw2) \<Rightarrow> (r1, r2, sw2)))"

section \<open>Example data\<close>

definition example_env :: env where
  "example_env =
     \<lparr>node = ''production'', paypalClientId = Some ''client'',
      paypalClientSecret = Some ''secret'', paypalUseSandbox = True,
      paypalSkipVerification = False\<rparr>"

definition sandbox_skip_env :: env where
  "sandbox_skip_env = example_env\<lparr>paypalSkipVerification := True\<rparr>"

definition example_token :: "PayPalAccessTokenResponse reply" where
  "example_token = Reply 200 None (Inr \<lparr>access_token = ''A21AAF'', expires_in = 32400\<rparr>)"

definition completed_capture :: "string \<Rightarrow> string \<Rightarrow> PayPalCaptureDetails" where
  "completed_capture cur v =
     \<lparr>capture_id = ''C1'', capture_status = ''COMPLETED'', currency_code = cur,
      amount_value = v\<rparr>"

definition example_capture :: PayPalCaptureDetails where
  "example_capture = completed_capture ''GBP'' ''5.00''"

definition example_order :: PayPalOrderResponse where
  "example_order =
     \<lparr>order_id = ''O1'', order_status = ''COMPLETED'',
      purchase_units = [\<lparr>unit_captures = Some [example_capture]\<rparr>]\<rparr>"

text \<open>A provider that answers the given replies, the token request first.\<close>

definition scripted_provider ::
  "PayPalCaptureDetails reply list \<Rightarrow> PayPalOrderResponse reply list \<Rightarrow> net" where
  "scripted_provider cs os =
     \<lparr>accessTokenCache = None, clock = 0, tokenReplies = [example_token],
      captureReplies = cs, orderReplies = os, requests = [], delays = []\<rparr>"

text \<open>A token endpoint that answers 503 to \<open>n\<close> requests and then falls silent.\<close>

definition token_endpoint_503 :: "nat \<Rightarrow> net" where
  "token_endpoint_503 n =
     \<lparr>accessTokenCache = None, clock = 0,
      tokenReplies = replicate n (Reply 503 None (Inl [])),
      captureReplies = [], orderReplies = [], requests = [], delays = []\<rparr>"

text \<open>A provider that confirms a completed capture of the given amount in pounds sterling.\<close>

definition confirming_provider :: "string \<Rightarrow> net" where
  "confirming_provider v =
     scripted_provider [Reply 200 None (Inr (completed_capture ''GBP'' v))]
       [Reply 200 None (Inr example_order)]"

definition example_user :: AuthUser where
  "example_user = \<lparr>user_id = ''u1'', user_email = ''u1@example.org''\<rparr>"

definition example_store :: "rat \<Rightarrow> store" where
  "example_store b = \<lparr>users = [''u1'' \<mapsto> Fin b], payments = []\<rparr>"

text \<open>The payment a verified submission of order \<open>oid\<close> by the example user leaves.\<close>

definition recorded_payment :: "string \<Rightarrow> IPayment" where
  "recorded_payment oid =
     \<lparr>pay_user = ''u1'', provider = paypal, pay_amount = Fin 5000, pay_currency = ''GBP'',
      pay_status = completed, externalId = Some oid,
      metadata = Some
        \<lparr>meta_captureId = Some ''C1'', meta_orderId = oid, meta_verified = True,
         verificationSkipped = False, sandbox = True, verifiedAt = 0\<rparr>\<rparr>"

definition recorded_store :: "rat \<Rightarrow> string \<Rightarrow> store" where
  "recorded_store b oid = \<lparr>users = [''u1'' \<mapsto> Fin b], payments = [recorded_payment oid]\<rparr>"

definition example_request :: "rat \<Rightarrow> string \<Rightarrow> request" where
  "example_request a oid =
     \<lparr>req_user = Some example_user, body_amount = JNum (Fin a), body_currency = Some ''GBP'',
      body_orderId = JStr oid, body_captureId = Some ''C1''\<rparr>"

section \<open>Evaluation and basic facts\<close>

lemmas js_defs = js_sub_def js_gt_def js_le_def is_digit_def digit_val_def digits_val_def is_ws_def
  exponent_part_def scale10_def unsigned_decimal_def signed_decimal_def parseFloat_def
  radix_digit_def radix_literal_def trim_def string_to_number_def digit_char_def show_nat.simps

lemmas service_defs = response_ok_def sleep_def retryDelay_def network_error_def environment_name_def
  service_unavailable_message_def credentials_message_def authentication_failed_message_def
  cached_token_def token_try_def getAccessToken.simps order_try_def verifyPayPalOrder.simps
  capture_not_found_message_def capture_try_def verifyPayPalCapture.simps
  both_not_found_message_def order_not_found_message_def capture_accepted_def
  first_unit_captures_def is404_def verify_via_order_def verifyPayPalPayment_def

lemmas controller_defs = findById_def save_def findOne_externalId_def index_key_def create_def
  json_message_def normalize_balance_def amountInPounds_def load_and_precheck_def
  development_error_def verification_error_response_def verify_submission_def new_payment_def
  record_payment_def credit_message_def credit_balance_def recordPayPalPayment_def

lemma normalize_balance_payments [simp]: "payments (snd (normalize_balance u st)) = payments st"
  by (simp add: normalize_balance_def save_def Let_def)

lemma normalize_balance_doc_id [simp]: "doc_id (fst (normalize_balance u st)) = doc_id u"
  by (simp add: normalize_balance_def Let_def)

lemma normalize_balance_current:
  assumes "users st i = Some b"
    and "normalize_balance \<lparr>doc_id = i, balance = b\<rparr> st = (u1, st1)"
  shows "users st1 i = Some (balance u1)" and "payments st1 = payments st" and "doc_id u1 = i"
  using assms by (auto simp: normalize_balance_def save_def Let_def split: if_splits)

lemma load_and_precheck_Inr:
  assumes "load_and_precheck req st = (Inr sub, st1)"
  shows "body_orderId req = JStr (sub_orderId sub)"
    and "sub_orderId sub \<noteq> []"
    and "map_option user_id (req_user req) = Some (sub_userId sub)"
    and "parsedAmount sub = js_Number (body_amount req)"
    and "isFinite (parsedAmount sub)"
    and "\<not> js_le (parsedAmount sub) (Fin 0)"
    and "findOne_externalId st1 (sub_orderId sub) = None"
    and "sub_currency sub = (case body_currency req of None \<Rightarrow> ''GBP'' | Some c \<Rightarrow> c)"
    and "sub_captureId sub = body_captureId req"
  using assms
  by (auto simp: load_and_precheck_def Let_def
      split: option.splits if_splits jsval.splits prod.splits)

lemma load_and_precheck_user:
  assumes "load_and_precheck req st = (Inr sub, st1)"
  shows "\<exists>b0. users st (sub_userId sub) = Some b0
           \<and> normalize_balance \<lparr>doc_id = sub_userId sub, balance = b0\<rparr> st = (sub_user sub, st1)"
  using assms
  by (auto simp: load_and_precheck_def findById_def Let_def
      split: option.splits if_splits jsval.splits prod.splits)

lemma load_and_precheck_doc_id:
  "load_and_precheck req st = (Inr sub, st1) \<Longrightarrow> doc_id (sub_user sub) = sub_userId sub"
  using load_and_precheck_user [of req st sub st1] normalize_balance_doc_id
  by (metis fst_conv user_doc.select_convs(1))

lemma load_and_precheck_payments:
  "payments (snd (load_and_precheck req st)) = payments st"
  by (auto simp: load_and_precheck_def Let_def normalize_balance_def save_def
      split: option.splits if_splits jsval.splits prod.splits)

lemma invalid_amount:
  "\<not> (isFinite n \<and> js_gt n (Fin 0)) \<longleftrightarrow> (\<not> isFinite n \<or> js_le n (Fin 0))"
  by (cases n) (auto simp: js_gt_def js_le_def)

lemma precheck_conflict:
  assumes "req_user req = Some au"
    and "isFinite (js_Number (body_amount req))"
    and "js_gt (js_Number (body_amount req)) (Fin 0)"
    and "body_orderId req = JStr oid" and "oid \<noteq> []"
    and "users st (user_id au) = Some b"
    and "findOne_externalId st oid = Some p"
    and "normalize_balance \<lparr>doc_id = user_id au, balance = b\<rparr> st = (u1, st1)"
  shows "load_and_precheck req st =
          (Inl ((json_message 409 ''This PayPal order has already been recorded.'')
                  \<lparr>res_balance := Some (balance u1)\<rparr>), st1)"
proof -
  from normalize_balance_current(2) [OF assms(6,8)] assms(7)
  have f: "findOne_externalId st1 oid = Some p"
    by (simp add: findOne_externalId_def)
  from assms(2,3) have valid: "\<not> (\<not> isFinite (js_Number (body_amount req))
                         \<or> js_le (js_Number (body_amount req)) (Fin 0))"
    using invalid_amount by blast
  from assms(1,4,5,6,8) valid f show ?thesis
    by (simp add: load_and_precheck_def findById_def Let_def)
qed

lemma find_snoc:
  "find P (xs @ [y]) = (case find P xs of None \<Rightarrow> (if P y then Some y else None) | Some x \<Rightarrow> Some x)"
  by (induction xs) auto

lemma create_fresh:
  assumes "findOne_externalId st oid = None" and "externalId p = Some oid"
  shows "create p st = Inr (st\<lparr>payments := payments st @ [p]\<rparr>)"
proof -
  from assms(1) have "\<forall>q \<in> set (payments st). externalId q \<noteq> Some oid"
    by (simp add: findOne_externalId_def find_None_iff)
  with assms(2) have "index_key p \<notin> set (map index_key (payments st))"
    by (auto simp: index_key_def)
  then show ?thesis by (simp add: create_def)
qed

lemma record_payment_fresh:
  assumes "findOne_externalId st (sub_orderId sub) = None"
  shows "record_payment e sub v now st = (Inr (), st\<lparr>payments := payments st @ [new_payment e sub v now]\<rparr>)"
proof -
  have "externalId (new_payment e sub v now) = Some (sub_orderId sub)"
    by (simp add: new_payment_def)
  from create_fresh [OF assms this] show ?thesis
    by (simp add: record_payment_def)
qed

lemma credit_balance_eq:
  "credit_balance sub st =
     ((json_message 200 credit_message)
        \<lparr>res_balance := Some (js_add (balance (sub_user sub)) (amountInPounds sub))\<rparr>,
      st\<lparr>users := (users st)(doc_id (sub_user sub) \<mapsto>
                        js_add (balance (sub_user sub)) (amountInPounds sub))\<rparr>)"
  by (simp add: credit_balance_def save_def Let_def)

lemma verify_submission_skipped:
  "paypalSkipVerification e \<Longrightarrow> paypalUseSandbox e \<Longrightarrow>
   verify_submission e sub w =
     (Returns (Inr \<lparr>verified = True, captureDetails = None, orderDetails = None\<rparr>), w)"
  by (simp add: verify_submission_def)

section \<open>The balance format\<close>

text \<open>
  Claim C7. Balance normalization divides a stored balance above 1000 by 1000 and writes
  the result to the store; any other balance, and the store, stay as they are. The
  divisor is the 1000 that turns a submitted amount into pounds. The handler applies it
  to the user it loads. A balance of 40050 becomes 40.05, and 40.05 stays 40.05.
\<close>

theorem balance_normalization:
  fixes b :: rat
  shows "(js_gt (balance u) (Fin 1000) \<longrightarrow>
            normalize_balance u st =
              (u\<lparr>balance := js_div (balance u) (Fin 1000)\<rparr>,
               st\<lparr>users := (users st)(doc_id u \<mapsto> js_div (balance u) (Fin 1000))\<rparr>))
       \<and> (\<not> js_gt (balance u) (Fin 1000) \<longrightarrow> normalize_balance u st = (u, st))
       \<and> js_gt (Fin b) (Fin 1000) = (1000 < b)
       \<and> js_div (Fin b) (Fin 1000) = Fin (b / 1000)
       \<and> amountInPounds sub = js_div (parsedAmount sub) (Fin 1000)
       \<and> (load_and_precheck req st = (Inr sub, st1) \<longrightarrow>
            (\<exists>b0. users st (sub_userId sub) = Some b0
                 \<and> normalize_balance \<lparr>doc_id = sub_userId sub, balance = b0\<rparr> st
                     = (sub_user sub, st1)))
       \<and> normalize_balance \<lparr>doc_id = i, balance = Fin 40050\<rparr> st
            = (\<lparr>doc_id = i, balance = Fin 40.05\<rparr>, st\<lparr>users := (users st)(i \<mapsto> Fin 40.05)\<rparr>)
       \<and> normalize_balance \<lparr>doc_id = i, balance = Fin 40.05\<rparr> st
            = (\<lparr>doc_id = i, balance = Fin 40.05\<rparr>, st)"
proof -
  have handler: "load_and_precheck req st = (Inr sub, st1) \<longrightarrow>
            (\<exists>b0. users st (sub_userId sub) = Some b0
                 \<and> normalize_balance \<lparr>doc_id = sub_userId sub, balance = b0\<rparr> st
                     = (sub_user sub, st1))"
    using load_and_precheck_user by blast
  show ?thesis
    using handler
    by (simp add: normalize_balance_def save_def amountInPounds_def js_gt_def Let_def)
qed

theorem balance_normalization_witness:
  "js_gt (balance \<lparr>doc_id = ''u1'', balance = Fin 40050\<rparr>) (Fin 1000)
   \<and> normalize_balance \<lparr>doc_id = ''u1'', balance = Fin 40050\<rparr> (example_store 40050)
       = (\<lparr>doc_id = ''u1'', balance = Fin 40.05\<rparr>, example_store 40.05)
   \<and> \<not> js_gt (balance \<lparr>doc_id = ''u1'', balance = Fin 40.05\<rparr>) (Fin 1000)
   \<and> normalize_balance \<lparr>doc_id = ''u1'', balance = Fin 40.05\<rparr> (example_store 40.05)
       = (\<lparr>doc_id = ''u1'', balance = Fin 40.05\<rparr>, example_store 40.05)
   \<and> load_and_precheck (example_request 5000 ''O1'') (example_store 40050)
       = (Inr \<lparr>sub_user = \<lparr>doc_id = ''u1'', balance = Fin 40.05\<rparr>, sub_userId = ''u1'',
               parsedAmount = Fin 5000, sub_orderId = ''O1'', sub_currency = ''GBP'',
               sub_captureId = Some ''C1''\<rparr>, example_store 40.05)"
  using balance_normalization [of "\<lparr>doc_id = ''u1'', balance = Fin 40050\<rparr>" "example_store 40050" 40050]
    balance_normalization [of "\<lparr>doc_id = ''u1'', balance = Fin 40.05\<rparr>" "example_store 40.05" "40.05"]
  by (simp add: example_store_def example_request_def example_user_def controller_defs js_defs)

section \<open>The checks of the request\<close>

text \<open>
  Claim C9, as amended. For every authenticated request whose amount does not convert to
  a finite positive number, or whose orderId is not a string or is the empty string, the
  handler answers 400 with one of its two validation messages; the stores and the
  provider state are as they were, and no request has gone to the provider.
\<close>

theorem invalid_input_rejected:
  assumes "req_user req = Some au"
    and "\<not> (isFinite (js_Number (body_amount req)) \<and> js_gt (js_Number (body_amount req)) (Fin 0))
         \<or> (\<forall>s. body_orderId req \<noteq> JStr s) \<or> body_orderId req = JStr []"
  shows "\<exists>res. recordPayPalPayment e req (st, w) = (Returns res, st, w)
             \<and> status res = 400
             \<and> (message res = ''A valid amount is required'' \<or> message res = ''orderId is required'')"
proof (cases "isFinite (js_Number (body_amount req)) \<and> js_gt (js_Number (body_amount req)) (Fin 0)")
  case False
  then have "\<not> isFinite (js_Number (body_amount req)) \<or> js_le (js_Number (body_amount req)) (Fin 0)"
    using invalid_amount by blast
  with assms(1) have "load_and_precheck req st = (Inl (json_message 400 ''A valid amount is required''), st)"
    by (auto simp: load_and_precheck_def Let_def)
  then show ?thesis
    by (simp add: recordPayPalPayment_def json_message_def)
next
  case True
  then have ok: "\<not> (\<not> isFinite (js_Number (body_amount req)) \<or> js_le (js_Number (body_amount req)) (Fin 0))"
    using invalid_amount by blast
  from True assms(2) have "(\<forall>s. body_orderId req \<noteq> JStr s) \<or> body_orderId req = JStr []"
    by blast
  with assms(1) ok
  have "load_and_precheck req st = (Inl (json_message 400 ''orderId is required''), st)"
    by (cases "body_orderId req") (auto simp: load_and_precheck_def Let_def)
  then show ?thesis
    by (simp add: recordPayPalPayment_def json_message_def)
qed

theorem invalid_input_rejected_witness:
  "req_user ((example_request 5000 ''O1'')\<lparr>body_amount := JStr ''12abc''\<rparr>) = Some example_user
   \<and> js_Number (JStr ''12abc'') = NaN
   \<and> (\<exists>res. recordPayPalPayment example_env ((example_request 5000 ''O1'')\<lparr>body_amount := JStr ''12abc''\<rparr>)
               (example_store 10, scripted_provider [] [])
             = (Returns res, example_store 10, scripted_provider [] [])
           \<and> status res = 400
           \<and> (message res = ''A valid amount is required'' \<or> message res = ''orderId is required''))"
proof -
  have n: "js_Number (JStr ''12abc'') = NaN"
    by (simp add: js_defs)
  have u: "req_user ((example_request 5000 ''O1'')\<lparr>body_amount := JStr ''12abc''\<rparr>) = Some example_user"
    by (simp add: example_request_def)
  have h: "\<not> (isFinite (js_Number (body_amount ((example_request 5000 ''O1'')\<lparr>body_amount := JStr ''12abc''\<rparr>)))
             \<and> js_gt (js_Number (body_amount ((example_request 5000 ''O1'')\<lparr>body_amount := JStr ''12abc''\<rparr>))) (Fin 0))
         \<or> (\<forall>s. body_orderId ((example_request 5000 ''O1'')\<lparr>body_amount := JStr ''12abc''\<rparr>) \<noteq> JStr s)
         \<or> body_orderId ((example_request 5000 ''O1'')\<lparr>body_amount := JStr ''12abc''\<rparr>) = JStr []"
    using n by simp
  from invalid_input_rejected [OF u h] n u show ?thesis
    by blast
qed

text \<open>
  Claim C9, as stated, fails for a request that carries no authenticated user: the amount
  is not positive, and the answer is 401, not a validation error.
\<close>

theorem unauthenticated_invalid_request:
  "js_Number (body_amount ((example_request (- 1) ''O1'')\<lparr>req_user := None\<rparr>)) = Fin (- 1)
   \<and> recordPayPalPayment example_env ((example_request (- 1) ''O1'')\<lparr>req_user := None\<rparr>)
        (example_store 10, scripted_provider [] [])
      = (Returns (json_message 401 ''Unauthorized''), example_store 10, scripted_provider [] [])
   \<and> status (json_message 401 ''Unauthorized'') = 401"
  by (simp add: example_request_def recordPayPalPayment_def load_and_precheck_def json_message_def)

section \<open>Skipped verification\<close>

text \<open>
  Claim C10, as amended. With \<open>PAYPAL_SKIP_VERIFICATION\<close> and the sandbox both set, no
  request of the handler reaches the provider: the provider state after the handler is
  the one before. A submission that passes the checks of the request and the pre-check
  is answered 200; its payment is inserted with \<open>verificationSkipped\<close> true and
  \<open>verified\<close> false in the metadata, and the balance is credited with the amount in
  pounds.
\<close>

theorem skipped_verification:
  assumes "paypalSkipVerification e" and "paypalUseSandbox e"
  shows "snd (snd (recordPayPalPayment e req (st, w))) = w
       \<and> (load_and_precheck req st = (Inr sub, st1) \<longrightarrow>
            recordPayPalPayment e req (st, w) =
              (Returns ((json_message 200 credit_message)
                 \<lparr>res_balance := Some (js_add (balance (sub_user sub)) (amountInPounds sub))\<rparr>),
               st1\<lparr>payments := payments st1 @
                      [new_payment e sub
                         \<lparr>verified = True, captureDetails = None, orderDetails = None\<rparr> (clock w)],
                    users := (users st1)(sub_userId sub \<mapsto>
                               js_add (balance (sub_user sub)) (amountInPounds sub))\<rparr>,
               w)
          \<and> provider (new_payment e sub
                \<lparr>verified = True, captureDetails = None, orderDetails = None\<rparr> (clock w)) = paypal
          \<and> externalId (new_payment e sub
                \<lparr>verified = True, captureDetails = None, orderDetails = None\<rparr> (clock w))
              = Some (sub_orderId sub)
          \<and> map_option verificationSkipped (metadata (new_payment e sub
                \<lparr>verified = True, captureDetails = None, orderDetails = None\<rparr> (clock w)))
              = Some True
          \<and> map_option meta_verified (metadata (new_payment e sub
                \<lparr>verified = True, captureDetails = None, orderDetails = None\<rparr> (clock w)))
              = Some False)"
proof -
  have net: "snd (snd (recordPayPalPayment e req (st, w))) = w"
    by (simp add: recordPayPalPayment_def verify_submission_skipped [OF assms]
        split: prod.splits sum.splits)
  have run: "recordPayPalPayment e req (st, w) =
              (Returns ((json_message 200 credit_message)
                 \<lparr>res_balance := Some (js_add (balance (sub_user sub)) (amountInPounds sub))\<rparr>),
               st1\<lparr>payments := payments st1 @
                      [new_payment e sub
                         \<lparr>verified = True, captureDetails = None, orderDetails = None\<rparr> (clock w)],
                    users := (users st1)(sub_userId sub \<mapsto>
                               js_add (balance (sub_user sub)) (amountInPounds sub))\<rparr>,
               w)"
    if a: "load_and_precheck req st = (Inr sub, st1)"
  proof -
    have fresh: "findOne_externalId st1 (sub_orderId sub) = None"
      using load_and_precheck_Inr(7) [OF a] .
    have did: "doc_id (sub_user sub) = sub_userId sub"
      using load_and_precheck_doc_id [OF a] .
    show ?thesis
      by (simp add: recordPayPalPayment_def a verify_submission_skipped [OF assms]
          record_payment_fresh [OF fresh] credit_balance_eq did)
  qed
  show ?thesis
    using net run assms by (simp add: new_payment_def)
qed

theorem skipped_verification_witness:
  "paypalSkipVerification sandbox_skip_env \<and> paypalUseSandbox sandbox_skip_env
   \<and> load_and_precheck (example_request 5000 ''O1'') (example_store 10)
       = (Inr \<lparr>sub_user = \<lparr>doc_id = ''u1'', balance = Fin 10\<rparr>, sub_userId = ''u1'',
               parsedAmount = Fin 5000, sub_orderId = ''O1'', sub_currency = ''GBP'',
               sub_captureId = Some ''C1''\<rparr>, example_store 10)
   \<and> fst (recordPayPalPayment sandbox_skip_env (example_request 5000 ''O1'')
             (example_store 10, scripted_provider [] []))
       = Returns ((json_message 200 credit_message)\<lparr>res_balance := Some (Fin 15)\<rparr>)
   \<and> snd (snd (recordPayPalPayment sandbox_skip_env (example_request 5000 ''O1'')
             (example_store 10, scripted_provider [] []))) = scripted_provider [] []"
proof -
  have s: "paypalSkipVerification sandbox_skip_env" "paypalUseSandbox sandbox_skip_env"
    by (simp_all add: sandbox_skip_env_def example_env_def)
  have l: "load_and_precheck (example_request 5000 ''O1'') (example_store 10)
       = (Inr \<lparr>sub_user = \<lparr>doc_id = ''u1'', balance = Fin 10\<rparr>, sub_userId = ''u1'',
               parsedAmount = Fin 5000, sub_orderId = ''O1'', sub_currency = ''GBP'',
               sub_captureId = Some ''C1''\<rparr>, example_store 10)"
    by (simp add: sandbox_skip_env_def scripted_provider_def example_store_def
        example_request_def example_env_def example_token_def example_user_def controller_defs
        js_defs)
  from skipped_verification [OF s, of "example_request 5000 ''O1''" "example_store 10" "scripted_provider [] []"
      "\<lparr>sub_user = \<lparr>doc_id = ''u1'', balance = Fin 10\<rparr>, sub_userId = ''u1'',
               parsedAmount = Fin 5000, sub_orderId = ''O1'', sub_currency = ''GBP'',
               sub_captureId = Some ''C1''\<rparr>" "example_store 10"] s l
  show ?thesis
    by (simp add: amountInPounds_def)
qed

text \<open>
  Claim C10, as stated, fails for a submission the pre-check stops: with both flags set,
  the submission of a recorded order is answered 409; no payment is inserted and the
  balance stays 15.
\<close>

theorem skipped_verification_duplicate:
  "paypalSkipVerification sandbox_skip_env \<and> paypalUseSandbox sandbox_skip_env
   \<and> recordPayPalPayment sandbox_skip_env (example_request 5000 ''O1'')
        (recorded_store 15 ''O1'', scripted_provider [] [])
      = (Returns ((json_message 409 ''This PayPal order has already been recorded.'')
                    \<lparr>res_balance := Some (Fin 15)\<rparr>),
         recorded_store 15 ''O1'', scripted_provider [] [])"
  by (simp add: sandbox_skip_env_def scripted_provider_def recorded_store_def
      example_request_def example_env_def example_token_def recorded_payment_def
      example_user_def js_defs controller_defs)

section \<open>Duplicate submissions\<close>

text \<open>
  Claim C2, as amended. A submission of an order that the pre-check finds recorded is
  answered 409 with the current balance of the account: the balance the store holds
  after the balance format has been normalized; no payment is inserted and nothing is
  credited. A submission whose insert the store rejects as a duplicate is answered 200,
  ``Payment already processed.'', with the balance read again from the store; the store
  is as it was.
\<close>

theorem duplicate_submission:
  "(req_user req = Some au \<and> isFinite (js_Number (body_amount req))
      \<and> js_gt (js_Number (body_amount req)) (Fin 0)
      \<and> body_orderId req = JStr oid \<and> oid \<noteq> [] \<and> users st (user_id au) = Some b
      \<and> findOne_externalId st oid = Some p \<longrightarrow>
        (\<exists>res st1. recordPayPalPayment e req (st, w) = (Returns res, st1, w)
           \<and> status res = 409
           \<and> message res = ''This PayPal order has already been recorded.''
           \<and> res_balance res = users st1 (user_id au)
           \<and> st1 = snd (normalize_balance \<lparr>doc_id = user_id au, balance = b\<rparr> st)
           \<and> payments st1 = payments st))
   \<and> (index_key (new_payment e sub v now) \<in> set (map index_key (payments st)) \<longrightarrow>
        (\<exists>res. record_payment e sub v now st = (Inl res, st)
           \<and> run e [0, 0] [Recording sub v] (st, w\<lparr>clock := now\<rparr>)
               = ([Finished (Returns res)], st, w\<lparr>clock := now\<rparr>)
           \<and> status res = 200
           \<and> message res = ''Payment already processed.''
           \<and> res_balance res =
               Some (case users st (sub_userId sub) of
                       None \<Rightarrow> balance (sub_user sub) | Some c \<Rightarrow> c)))"
proof (intro conjI impI)
  assume a: "req_user req = Some au \<and> isFinite (js_Number (body_amount req))
      \<and> js_gt (js_Number (body_amount req)) (Fin 0)
      \<and> body_orderId req = JStr oid \<and> oid \<noteq> [] \<and> users st (user_id au) = Some b
      \<and> findOne_externalId st oid = Some p"
  obtain u1 st1 where n: "normalize_balance \<lparr>doc_id = user_id au, balance = b\<rparr> st = (u1, st1)"
    by (cases "normalize_balance \<lparr>doc_id = user_id au, balance = b\<rparr> st") auto
  from a have u: "users st (user_id au) = Some b" by simp
  note cur = normalize_balance_current [OF u n]
  from a n have "load_and_precheck req st =
          (Inl ((json_message 409 ''This PayPal order has already been recorded.'')
                  \<lparr>res_balance := Some (balance u1)\<rparr>), st1)"
    using precheck_conflict [of req au oid st b p u1 st1] by blast
  then have "recordPayPalPayment e req (st, w) =
          (Returns ((json_message 409 ''This PayPal order has already been recorded.'')
                  \<lparr>res_balance := Some (balance u1)\<rparr>), st1, w)"
    by (simp add: recordPayPalPayment_def)
  with cur n
  show "\<exists>res st1. recordPayPalPayment e req (st, w) = (Returns res, st1, w)
           \<and> status res = 409
           \<and> message res = ''This PayPal order has already been recorded.''
           \<and> res_balance res = users st1 (user_id au)
           \<and> st1 = snd (normalize_balance \<lparr>doc_id = user_id au, balance = b\<rparr> st)
           \<and> payments st1 = payments st"
    by (simp add: json_message_def)
next
  assume d: "index_key (new_payment e sub v now) \<in> set (map index_key (payments st))"
  then have c: "create (new_payment e sub v now) st = Inl DuplicateKey"
    by (simp add: create_def)
  have r: "record_payment e sub v now st =
          (Inl ((json_message 200 ''Payment already processed.'')
                  \<lparr>res_balance :=
                     Some (case users st (sub_userId sub) of
                             None \<Rightarrow> balance (sub_user sub) | Some c \<Rightarrow> c)\<rparr>), st)"
    by (simp add: record_payment_def c findById_def split: option.splits)
  then show "\<exists>res. record_payment e sub v now st = (Inl res, st)
           \<and> run e [0, 0] [Recording sub v] (st, w\<lparr>clock := now\<rparr>)
               = ([Finished (Returns res)], st, w\<lparr>clock := now\<rparr>)
           \<and> status res = 200
           \<and> message res = ''Payment already processed.''
           \<and> res_balance res =
               Some (case users st (sub_userId sub) of
                       None \<Rightarrow> balance (sub_user sub) | Some c \<Rightarrow> c)"
    by (simp add: step_def c already_processed_def findById_def json_message_def
        split: option.splits)
qed

theorem duplicate_submission_witness:
  "req_user (example_request 5000 ''O1'') = Some example_user
   \<and> isFinite (js_Number (body_amount (example_request 5000 ''O1'')))
   \<and> js_gt (js_Number (body_amount (example_request 5000 ''O1''))) (Fin 0)
   \<and> body_orderId (example_request 5000 ''O1'') = JStr ''O1''
   \<and> users (recorded_store 15 ''O1'') (user_id example_user) = Some (Fin 15)
   \<and> findOne_externalId (recorded_store 15 ''O1'') ''O1'' = Some (recorded_payment ''O1'')
   \<and> (\<exists>res st1. recordPayPalPayment example_env (example_request 5000 ''O1'')
                    (recorded_store 15 ''O1'', scripted_provider [] [])
                  = (Returns res, st1, scripted_provider [] [])
           \<and> status res = 409
           \<and> res_balance res = users st1 (user_id example_user)
           \<and> payments st1 = payments (recorded_store 15 ''O1''))
   \<and> index_key (new_payment example_env
         \<lparr>sub_user = \<lparr>doc_id = ''u1'', balance = Fin 10\<rparr>, sub_userId = ''u1'',
          parsedAmount = Fin 5000, sub_orderId = ''O1'', sub_currency = ''GBP'',
          sub_captureId = Some ''C1''\<rparr>
         \<lparr>verified = True, captureDetails = None, orderDetails = None\<rparr> 0)
       \<in> set (map index_key (payments (recorded_store 15 ''O1'')))
   \<and> (\<exists>res. record_payment example_env
         \<lparr>sub_user = \<lparr>doc_id = ''u1'', balance = Fin 10\<rparr>, sub_userId = ''u1'',
          parsedAmount = Fin 5000, sub_orderId = ''O1'', sub_currency = ''GBP'',
          sub_captureId = Some ''C1''\<rparr>
         \<lparr>verified = True, captureDetails = None, orderDetails = None\<rparr> 0
         (recorded_store 15 ''O1'') = (Inl res, recorded_store 15 ''O1'')
        \<and> status res = 200 \<and> res_balance res = Some (Fin 15))"
proof -
  have h: "req_user (example_request 5000 ''O1'') = Some example_user
   \<and> isFinite (js_Number (body_amount (example_request 5000 ''O1'')))
   \<and> js_gt (js_Number (body_amount (example_request 5000 ''O1''))) (Fin 0)
   \<and> body_orderId (example_request 5000 ''O1'') = JStr ''O1'' \<and> ''O1'' \<noteq> []
   \<and> users (recorded_store 15 ''O1'') (user_id example_user) = Some (Fin 15)
   \<and> findOne_externalId (recorded_store 15 ''O1'') ''O1'' = Some (recorded_payment ''O1'')"
    by (simp add: example_env_def scripted_provider_def example_user_def recorded_payment_def
        recorded_store_def example_request_def example_token_def js_defs controller_defs)
  have k: "index_key (new_payment example_env
         \<lparr>sub_user = \<lparr>doc_id = ''u1'', balance = Fin 10\<rparr>, sub_userId = ''u1'',
          parsedAmount = Fin 5000, sub_orderId = ''O1'', sub_currency = ''GBP'',
          sub_captureId = Some ''C1''\<rparr>
         \<lparr>verified = True, captureDetails = None, orderDetails = None\<rparr> 0)
       \<in> set (map index_key (payments (recorded_store 15 ''O1'')))"
    by (simp add: example_env_def scripted_provider_def example_user_def recorded_payment_def
        recorded_store_def example_request_def example_token_def controller_defs)
  note d = duplicate_submission [of "example_request 5000 ''O1''" example_user "''O1''"
      "recorded_store 15 ''O1''" "Fin 15" "recorded_payment ''O1''" example_env
      "scripted_provider [] []"
      "\<lparr>sub_user = \<lparr>doc_id = ''u1'', balance = Fin 10\<rparr>, sub_userId = ''u1'',
          parsedAmount = Fin 5000, sub_orderId = ''O1'', sub_currency = ''GBP'',
          sub_captureId = Some ''C1''\<rparr>"
      "\<lparr>verified = True, captureDetails = None, orderDetails = None\<rparr>" 0]
  from d [THEN conjunct1, rule_format, OF h] have a: "\<exists>res st1. recordPayPalPayment example_env (example_request 5000 ''O1'')
                    (recorded_store 15 ''O1'', scripted_provider [] [])
                  = (Returns res, st1, scripted_provider [] [])
           \<and> status res = 409
           \<and> res_balance res = users st1 (user_id example_user)
           \<and> payments st1 = payments (recorded_store 15 ''O1'')"
    by blast
  from d [THEN conjunct2, rule_format, OF k] obtain res where
    r: "record_payment example_env
         \<lparr>sub_user = \<lparr>doc_id = ''u1'', balance = Fin 10\<rparr>, sub_userId = ''u1'',
          parsedAmount = Fin 5000, sub_orderId = ''O1'', sub_currency = ''GBP'',
          sub_captureId = Some ''C1''\<rparr>
         \<lparr>verified = True, captureDetails = None, orderDetails = None\<rparr> 0
         (recorded_store 15 ''O1'') = (Inl res, recorded_store 15 ''O1'')"
    and s: "status res = 200"
    and c: "res_balance res = Some (case users (recorded_store 15 ''O1'') (sub_userId
         \<lparr>sub_user = \<lparr>doc_id = ''u1'', balance = Fin 10\<rparr>, sub_userId = ''u1'',
          parsedAmount = Fin 5000, sub_orderId = ''O1'', sub_currency = ''GBP'',
          sub_captureId = Some ''C1''\<rparr>) of
                       None \<Rightarrow> balance (sub_user
         \<lparr>sub_user = \<lparr>doc_id = ''u1'', balance = Fin 10\<rparr>, sub_userId = ''u1'',
          parsedAmount = Fin 5000, sub_orderId = ''O1'', sub_currency = ''GBP'',
          sub_captureId = Some ''C1''\<rparr>) | Some c \<Rightarrow> c)"
    by blast
  from c have "res_balance res = Some (Fin 15)"
    by (simp add: recorded_store_def)
  with r s have b: "\<exists>res. record_payment example_env
         \<lparr>sub_user = \<lparr>doc_id = ''u1'', balance = Fin 10\<rparr>, sub_userId = ''u1'',
          parsedAmount = Fin 5000, sub_orderId = ''O1'', sub_currency = ''GBP'',
          sub_captureId = Some ''C1''\<rparr>
         \<lparr>verified = True, captureDetails = None, orderDetails = None\<rparr> 0
         (recorded_store 15 ''O1'') = (Inl res, recorded_store 15 ''O1'')
        \<and> status res = 200 \<and> res_balance res = Some (Fin 15)"
    by blast
  from h k a b show ?thesis by blast
qed

text \<open>
  Claim C2, as stated, fails on the pre-check path: the second submission of a recorded
  order is answered with the status 409, an error status.
\<close>

theorem precheck_duplicate_is_conflict:
  "submit_twice example_env (example_request 5000 ''O1'')
     (example_store 10, confirming_provider ''5.00'')
   = (Returns ((json_message 200 credit_message)\<lparr>res_balance := Some (Fin 15)\<rparr>),
      Returns ((json_message 409 ''This PayPal order has already been recorded.'')
                 \<lparr>res_balance := Some (Fin 15)\<rparr>),
      recorded_store 15 ''O1'',
      \<lparr>accessTokenCache = Some (''A21AAF'', 32340000), clock = 0, tokenReplies = [],
       captureReplies = [], orderReplies = [],
       requests = [TokenRequest, CaptureRequest ''C1'', OrderRequest ''O1''], delays = []\<rparr>)
   \<and> status ((json_message 409 ''This PayPal order has already been recorded.'')
                 \<lparr>res_balance := Some (Fin 15)\<rparr>) = 409"
  by (simp add: example_env_def confirming_provider_def example_store_def recorded_store_def
      example_request_def submit_twice_def scripted_provider_def completed_capture_def
      example_order_def recorded_payment_def example_user_def example_token_def
      example_capture_def service_defs js_defs controller_defs)

section \<open>Idempotency\<close>

lemma load_and_precheck_Inl_message:
  "load_and_precheck req st = (Inl res, st1) \<Longrightarrow> message res \<noteq> credit_message"
  by (auto simp: load_and_precheck_def Let_def json_message_def credit_message_def
      split: option.splits if_splits jsval.splits prod.splits)

lemma verification_error_response_message:
  "message (verification_error_response e m) \<noteq> credit_message"
  by (simp add: verification_error_response_def json_message_def credit_message_def
      permissions_message_def temporarily_unavailable_message_def mismatch_user_message_def Let_def)

lemma verify_submission_Inl_message:
  "verify_submission e sub w = (Returns (Inl res), w1) \<Longrightarrow> message res \<noteq> credit_message"
  using verification_error_response_message
  by (auto simp: verify_submission_def json_message_def credit_message_def
      split: if_splits prod.splits outcome.splits)

lemma record_payment_Inl_message:
  "record_payment e sub v now st = (Inl res, st1) \<Longrightarrow> message res \<noteq> credit_message"
  by (auto simp: record_payment_def json_message_def credit_message_def
      split: sum.splits store_error.splits)

lemma recordPayPalPayment_credited:
  assumes "recordPayPalPayment e req (st, w) = (Returns r1, st1, w1)"
    and "message r1 = credit_message"
  shows "\<exists>sub st0 v.
           load_and_precheck req st = (Inr sub, st0)
         \<and> verify_submission e sub w = (Returns (Inr v), w1)
         \<and> st1 = st0\<lparr>payments := payments st0 @ [new_payment e sub v (clock w1)],
                      users := (users st0)(sub_userId sub \<mapsto>
                                 js_add (balance (sub_user sub)) (amountInPounds sub))\<rparr>
         \<and> r1 = (json_message 200 credit_message)
                  \<lparr>res_balance := Some (js_add (balance (sub_user sub)) (amountInPounds sub))\<rparr>"
proof -
  obtain x st0 where l: "load_and_precheck req st = (x, st0)"
    by (cases "load_and_precheck req st") auto
  show ?thesis
  proof (cases x)
    case (Inl res)
    with l assms(1) have "r1 = res"
      by (simp add: recordPayPalPayment_def)
    with l Inl assms(2) show ?thesis
      using load_and_precheck_Inl_message by blast
  next
    case (Inr sub)
    note l' = l [unfolded Inr]
    have fresh: "findOne_externalId st0 (sub_orderId sub) = None"
      using load_and_precheck_Inr(7) [OF l'] .
    have did: "doc_id (sub_user sub) = sub_userId sub"
      using load_and_precheck_doc_id [OF l'] .
    obtain y w' where vs: "verify_submission e sub w = (y, w')"
      by (cases "verify_submission e sub w") auto
    show ?thesis
    proof (cases y)
      case Unanswered
      with l' vs assms(1) show ?thesis
        by (simp add: recordPayPalPayment_def)
    next
      case (Throws m)
      with l' vs assms(1) show ?thesis
        by (simp add: recordPayPalPayment_def)
    next
      case (Returns z)
      show ?thesis
      proof (cases z)
        case (Inl res)
        with l' vs Returns assms(1) have "r1 = res"
          by (simp add: recordPayPalPayment_def)
        with vs Returns Inl assms(2) show ?thesis
          using verify_submission_Inl_message by blast
      next
        case (Inr v)
        with l' vs Returns assms(1) show ?thesis
          by (auto simp: recordPayPalPayment_def record_payment_fresh [OF fresh]
              credit_balance_eq did)
      qed
    qed
  qed
qed

lemma create_unique_index:
  "unique_index (payments st) \<Longrightarrow> create p st = Inr st1 \<Longrightarrow> unique_index (payments st1)"
  by (auto simp: create_def unique_index_def split: if_splits)

lemma step_unique_index:
  assumes "unique_index (payments st)"
  shows "unique_index (payments (fst (snd (step e t (st, w)))))"
proof (cases t)
  case (Verifying sub)
  then show ?thesis
    using assms by (auto simp: step_def split: prod.splits sum.splits outcome.splits)
next
  case (Recording sub v)
  then show ?thesis
    using assms create_unique_index [of st "new_payment e sub v (clock w)"]
    by (auto simp: step_def split: sum.splits store_error.splits)
next
  case (Crediting sub)
  then show ?thesis
    using assms by (simp add: step_def credit_balance_eq)
qed (use assms in \<open>simp_all add: step_def save_def\<close>)

lemma run_unique_index:
  "unique_index (payments st) \<Longrightarrow> unique_index (payments (fst (snd (run e sched ts (st, w)))))"
proof (induction sched arbitrary: ts st w)
  case Nil
  then show ?case by simp
next
  case (Cons i sched)
  show ?case
  proof (cases "i < length ts")
    case True
    obtain t st1 w1 where s: "step e (ts ! i) (st, w) = (t, st1, w1)"
      by (cases "step e (ts ! i) (st, w)") auto
    from step_unique_index [OF Cons.prems, of e "ts ! i" w] s
    have "unique_index (payments st1)" by simp
    from Cons.IH [OF this] True s show ?thesis by simp
  next
    case False
    with Cons show ?thesis by simp
  qed
qed

text \<open>The handler is its steps run one after the other.\<close>

lemma load_user_stage:
  "(\<exists>res. load_user req st = Finished (Returns res))
   \<or> (\<exists>sub. load_user req st = Normalizing sub)
   \<or> (\<exists>sub. load_user req st = Prechecking sub)"
  by (simp add: load_user_def Let_def split: option.splits jsval.splits)

lemma load_and_precheck_steps:
  shows "load_user req st = Finished (Returns res) \<Longrightarrow>
           load_and_precheck req st = (Inl res, st)"
    and "load_user req st = Normalizing sub \<Longrightarrow>
           load_and_precheck req st =
             (case precheck sub (save (sub_user sub) st) of
                Finished r \<Rightarrow> (case r of Returns res \<Rightarrow> (Inl res, save (sub_user sub) st))
              | Verifying sub1 \<Rightarrow> (Inr sub1, save (sub_user sub) st))"
    and "load_user req st = Prechecking sub \<Longrightarrow>
           load_and_precheck req st =
             (case precheck sub st of
                Finished r \<Rightarrow> (case r of Returns res \<Rightarrow> (Inl res, st))
              | Verifying sub1 \<Rightarrow> (Inr sub1, st))"
  by (auto simp: load_and_precheck_def load_user_def precheck_def normalize_balance_def Let_def
      split: option.splits jsval.splits if_splits)

lemma record_payment_steps:
  "record_payment e sub v now st =
     (case create (new_payment e sub v now) st of
        Inl DuplicateKey \<Rightarrow> (Inl (already_processed sub st), st)
      | Inr st1 \<Rightarrow> (Inr (), st1))"
  by (simp add: record_payment_def already_processed_def split: sum.splits store_error.splits)

lemma run_sequential:
  "run e [0, 0, 0, 0, 0, 0] [AtStart req] sw =
     (case recordPayPalPayment e req sw of (r, sw1) \<Rightarrow> ([Finished r], sw1))"
proof (cases sw)
  case (Pair st w)
  from load_user_stage [of req st] show ?thesis
  proof (elim disjE exE)
    fix res
    assume "load_user req st = Finished (Returns res)"
    then show ?thesis
      unfolding Pair
      by (simp add: step_def recordPayPalPayment_def load_and_precheck_steps(1))
  next
    fix sub
    assume "load_user req st = Normalizing sub"
    then show ?thesis
      unfolding Pair
      by (auto simp: step_def recordPayPalPayment_def load_and_precheck_steps(2)
          record_payment_steps precheck_def
          split: prod.splits sum.splits outcome.splits option.splits store_error.splits)
  next
    fix sub
    assume "load_user req st = Prechecking sub"
    then show ?thesis
      unfolding Pair
      by (auto simp: step_def recordPayPalPayment_def load_and_precheck_steps(3)
          record_payment_steps precheck_def
          split: prod.splits sum.splits outcome.splits option.splits store_error.splits)
  qed
qed

lemma load_user_not_crediting: "crediting (load_user req st) = None"
  by (simp add: load_user_def Let_def split: option.splits jsval.splits)

lemma step_cases:
  assumes "step e t (st, w) = (t', st', w')"
  shows "(crediting t' = None \<and> (\<forall>oid. recorded st' oid = recorded st oid))
       \<or> (\<exists>oid. crediting t = None \<and> crediting t' = Some oid \<and> \<not> recorded st oid
              \<and> (\<forall>x. recorded st' x = (x = oid \<or> recorded st x)))"
proof (cases t)
  case (AtStart req)
  with assms load_user_not_crediting [of req st] show ?thesis
    by (auto simp: step_def)
next
  case (Normalizing sub)
  with assms show ?thesis
    by (auto simp: step_def save_def recorded_def)
next
  case (Prechecking sub)
  with assms show ?thesis
    by (auto simp: step_def precheck_def split: option.splits)
next
  case (Verifying sub)
  with assms show ?thesis
    by (auto simp: step_def split: prod.splits sum.splits outcome.splits)
next
  case (Recording sub v)
  have k: "index_key (new_payment e sub v (clock w)) = (paypal, Some (sub_orderId sub))"
    by (simp add: index_key_def new_payment_def)
  from Recording assms k show ?thesis
    by (auto simp: step_def create_def recorded_def split: if_splits)
next
  case (Rereading sub)
  with assms show ?thesis
    by (auto simp: step_def)
next
  case (Crediting sub)
  with assms show ?thesis
    by (auto simp: step_def credit_balance_eq recorded_def)
next
  case (Finished r)
  with assms show ?thesis
    by (auto simp: step_def)
qed

lemma credited_orders_distinct:
  assumes "credit_invariant ts st"
  shows "distinct (credited_orders e sched ts (st, w))
       \<and> (\<forall>oid \<in> set (credited_orders e sched ts (st, w)).
             recorded st oid \<longrightarrow> (\<exists>i < length ts. crediting (ts ! i) = Some oid))"
  using assms
proof (induction sched arbitrary: ts st w)
  case Nil
  then show ?case by simp
next
  case (Cons i sched)
  show ?case
  proof (cases "i < length ts")
    case False
    with Cons show ?thesis by simp
  next
    case True
    obtain t' st' w' where s: "step e (ts ! i) (st, w) = (t', st', w')"
      by (cases "step e (ts ! i) (st, w)") auto
    let ?ts = "ts[i := t']"
    let ?log = "credited_orders e sched ?ts (st', w')"
    note inv = Cons.prems [unfolded credit_invariant_def]
    from step_cases [OF s]
    have inv': "credit_invariant ?ts st'"
    proof
      assume a: "crediting t' = None \<and> (\<forall>oid. recorded st' oid = recorded st oid)"
      show ?thesis
        unfolding credit_invariant_def
      proof (intro conjI allI impI)
        fix a b oid
        assume "a < length ?ts" "b < length ?ts"
          "crediting (?ts ! a) = Some oid \<and> crediting (?ts ! b) = Some oid"
        with a inv True show "a = b"
          by (cases "a = i"; cases "b = i") (auto simp: nth_list_update)
      next
        fix a oid
        assume "a < length ?ts" "crediting (?ts ! a) = Some oid"
        with a inv True show "recorded st' oid"
          by (cases "a = i") (auto simp: nth_list_update)
      qed
    next
      assume "\<exists>oid. crediting (ts ! i) = None \<and> crediting t' = Some oid \<and> \<not> recorded st oid
              \<and> (\<forall>x. recorded st' x = (x = oid \<or> recorded st x))"
      then obtain oid where b: "crediting (ts ! i) = None" "crediting t' = Some oid"
        "\<not> recorded st oid" "\<forall>x. recorded st' x = (x = oid \<or> recorded st x)"
        by blast
      show ?thesis
        unfolding credit_invariant_def
      proof (intro conjI allI impI)
        fix a c x
        assume "a < length ?ts" "c < length ?ts"
          "crediting (?ts ! a) = Some x \<and> crediting (?ts ! c) = Some x"
        with b inv True show "a = c"
          by (cases "a = i"; cases "c = i") (auto simp: nth_list_update)
      next
        fix a x
        assume "a < length ?ts" "crediting (?ts ! a) = Some x"
        with b inv True show "recorded st' x"
          by (cases "a = i") (auto simp: nth_list_update)
      qed
    qed
    from Cons.IH [OF inv', of w']
    have d: "distinct ?log"
      and f: "\<forall>oid \<in> set ?log. recorded st' oid \<longrightarrow> (\<exists>j < length ?ts. crediting (?ts ! j) = Some oid)"
      by blast+
    show ?thesis
    proof (cases "crediting (ts ! i)")
      case None
      with True s have eq: "credited_orders e (i # sched) ts (st, w) = ?log"
        by simp
      have "\<exists>j < length ts. crediting (ts ! j) = Some oid"
        if "oid \<in> set ?log" and "recorded st oid" for oid
      proof -
        from step_cases [OF s] that(2) have r': "recorded st' oid" by auto
        with f that(1) obtain j where j: "j < length ?ts" "crediting (?ts ! j) = Some oid"
          by blast
        from step_cases [OF s] that(2) j have "j \<noteq> i"
          by (auto simp: nth_list_update)
        with j show ?thesis by (auto simp: nth_list_update)
      qed
      with d eq show ?thesis by auto
    next
      case (Some oid)
      with True s have eq: "credited_orders e (i # sched) ts (st, w) = oid # ?log"
        by simp
      from step_cases [OF s] Some
      have t': "crediting t' = None" and same: "\<forall>x. recorded st' x = recorded st x"
        by auto
      from inv Some True have rec: "recorded st oid" by blast
      have notin: "oid \<notin> set ?log"
      proof
        assume "oid \<in> set ?log"
        with f rec same obtain j where j: "j < length ?ts" "crediting (?ts ! j) = Some oid"
          by blast
        with t' have ji: "j \<noteq> i" by (auto simp: nth_list_update)
        with j have "crediting (ts ! j) = Some oid" "j < length ts"
          by (auto simp: nth_list_update)
        with inv Some True ji show False by blast
      qed
      have "\<exists>j < length ts. crediting (ts ! j) = Some x"
        if "x \<in> set (oid # ?log)" and "recorded st x" for x
      proof (cases "x = oid")
        case True
        with Some \<open>i < length ts\<close> show ?thesis by blast
      next
        case False
        with that have "x \<in> set ?log" by simp
        with f that(2) same obtain j where j: "j < length ?ts" "crediting (?ts ! j) = Some x"
          by blast
        with t' have "j \<noteq> i" by (auto simp: nth_list_update)
        with j show ?thesis by (auto simp: nth_list_update)
      qed
      with d notin eq show ?thesis by auto
    qed
  qed
qed

lemma credit_invariant_start:
  "credit_invariant (map AtStart reqs) st"
  by (simp add: credit_invariant_def)

lemma credited_orders_once:
  "distinct (credited_orders e sched (map AtStart reqs) (st, w))"
  using credited_orders_distinct [OF credit_invariant_start] by blast

lemma recorded_never_credited:
  assumes "recorded st oid"
  shows "oid \<notin> set (credited_orders e sched (map AtStart reqs) (st, w))"
proof
  assume "oid \<in> set (credited_orders e sched (map AtStart reqs) (st, w))"
  with credited_orders_distinct [OF credit_invariant_start, of e sched reqs st w] assms
  obtain i where "i < length (map AtStart reqs)" "crediting (map AtStart reqs ! i) = Some oid"
    by blast
  then show False by simp
qed

text \<open>
  Claim C1, as amended. Let a submission be answered with the credit: its payment, with
  the key (paypal, order id), is the one record added, and the keys of the records stay
  unique. They stay unique under every schedule of requests that run at the same time;
  no schedule of requests that start afterwards credits an order twice, and none
  credits this order again. The same request submitted again,
  whatever the configuration and the provider, is answered 409 without a request to the
  provider; no record is added; the balance it returns is the balance the store then
  holds. That is the balance after the first submission, and the store is unchanged,
  when that balance is at most 1000; a larger balance is divided by 1000 once more, in
  the store and in the answer.
\<close>

theorem sequential_idempotency:
  assumes "unique_index (payments st)"
    and "recordPayPalPayment e req (st, w) = (Returns r1, st1, w1)"
    and "message r1 = credit_message"
  shows "\<exists>oid uid b1 p.
           body_orderId req = JStr oid \<and> map_option user_id (req_user req) = Some uid
         \<and> res_balance r1 = Some b1 \<and> users st1 uid = Some b1
         \<and> payments st1 = payments st @ [p] \<and> index_key p = (paypal, Some oid)
         \<and> unique_index (payments st1)
         \<and> (\<forall>sched ts w2. unique_index (payments (fst (snd (run e sched ts (st1, w2))))))
         \<and> (\<forall>e2 sched reqs w2.
                distinct (credited_orders e2 sched (map AtStart reqs) (st1, w2))
              \<and> oid \<notin> set (credited_orders e2 sched (map AtStart reqs) (st1, w2)))
         \<and> (\<forall>e2 w2. \<exists>r2 st2.
                recordPayPalPayment e2 req (st1, w2) = (Returns r2, st2, w2)
              \<and> status r2 = 409
              \<and> payments st2 = payments st1
              \<and> res_balance r2 = users st2 uid
              \<and> res_balance r2 = Some (if js_gt b1 (Fin 1000) then js_div b1 (Fin 1000) else b1)
              \<and> (\<not> js_gt b1 (Fin 1000) \<longrightarrow> st2 = st1 \<and> res_balance r2 = res_balance r1))"
proof -
  from recordPayPalPayment_credited [OF assms(2,3)] obtain sub st0 v where
    l: "load_and_precheck req st = (Inr sub, st0)"
    and st1: "st1 = st0\<lparr>payments := payments st0 @ [new_payment e sub v (clock w1)],
                      users := (users st0)(sub_userId sub \<mapsto>
                                 js_add (balance (sub_user sub)) (amountInPounds sub))\<rparr>"
    and r1: "r1 = (json_message 200 credit_message)
                  \<lparr>res_balance := Some (js_add (balance (sub_user sub)) (amountInPounds sub))\<rparr>"
    by blast
  define oid where "oid = sub_orderId sub"
  define uid where "uid = sub_userId sub"
  define b1 where "b1 = js_add (balance (sub_user sub)) (amountInPounds sub)"
  define p where "p = new_payment e sub v (clock w1)"
  note facts = load_and_precheck_Inr [OF l]
  have pay0: "payments st0 = payments st"
    using load_and_precheck_payments [of req st] l by simp
  have fresh: "findOne_externalId st0 oid = None"
    using facts(7) by (simp add: oid_def)
  have key: "index_key p = (paypal, Some oid)"
    by (simp add: p_def oid_def index_key_def new_payment_def)
  have ext: "externalId p = Some oid"
    by (simp add: p_def oid_def new_payment_def)
  have pay1: "payments st1 = payments st @ [p]"
    by (simp add: st1 pay0 p_def)
  have users1: "users st1 uid = Some b1"
    by (simp add: st1 uid_def b1_def)
  from fresh have "\<forall>q \<in> set (payments st0). externalId q \<noteq> Some oid"
    by (simp add: findOne_externalId_def find_None_iff)
  then have "index_key p \<notin> set (map index_key (payments st))"
    using ext pay0 by (auto simp: index_key_def)
  with assms(1) have uniq1: "unique_index (payments st1)"
    by (simp add: pay1 unique_index_def)
  have found: "findOne_externalId st1 oid = Some p"
    using fresh ext by (simp add: findOne_externalId_def st1 p_def find_snoc)
  from facts(3) obtain au where au: "req_user req = Some au" and auid: "user_id au = uid"
    by (auto simp: uid_def)
  have amt: "isFinite (js_Number (body_amount req))" "js_gt (js_Number (body_amount req)) (Fin 0)"
    using facts(4,5,6) invalid_amount [of "js_Number (body_amount req)"] by auto
  have second: "\<exists>r2 st2.
                recordPayPalPayment e2 req (st1, w2) = (Returns r2, st2, w2)
              \<and> status r2 = 409
              \<and> payments st2 = payments st1
              \<and> res_balance r2 = users st2 uid
              \<and> res_balance r2 = Some (if js_gt b1 (Fin 1000) then js_div b1 (Fin 1000) else b1)
              \<and> (\<not> js_gt b1 (Fin 1000) \<longrightarrow> st2 = st1 \<and> res_balance r2 = res_balance r1)"
    for e2 w2
  proof -
    obtain u2 st2 where n: "normalize_balance \<lparr>doc_id = uid, balance = b1\<rparr> st1 = (u2, st2)"
      by (cases "normalize_balance \<lparr>doc_id = uid, balance = b1\<rparr> st1") auto
    have u1': "users st1 (user_id au) = Some b1"
      using users1 auid by simp
    have n': "normalize_balance \<lparr>doc_id = user_id au, balance = b1\<rparr> st1 = (u2, st2)"
      using n auid by simp
    have oid_ne: "oid \<noteq> []" and oid_eq: "body_orderId req = JStr oid"
      using facts(1,2) by (simp_all add: oid_def)
    from precheck_conflict [OF au amt oid_eq oid_ne u1' found n']
    have "recordPayPalPayment e2 req (st1, w2) =
            (Returns ((json_message 409 ''This PayPal order has already been recorded.'')
                  \<lparr>res_balance := Some (balance u2)\<rparr>), st2, w2)"
      by (simp add: recordPayPalPayment_def)
    moreover note cur = normalize_balance_current [OF users1 n]
    moreover have "balance u2 = (if js_gt b1 (Fin 1000) then js_div b1 (Fin 1000) else b1)"
      using n by (auto simp: normalize_balance_def Let_def split: if_splits)
    moreover have "\<not> js_gt b1 (Fin 1000) \<longrightarrow> st2 = st1"
      using n by (auto simp: normalize_balance_def Let_def split: if_splits)
    moreover have "res_balance r1 = Some b1"
      by (simp add: r1 b1_def)
    ultimately show ?thesis
      by (simp add: json_message_def)
  qed
  have "res_balance r1 = Some b1"
    by (simp add: r1 b1_def)
  moreover have "body_orderId req = JStr oid"
    using facts(1) by (simp add: oid_def)
  moreover have "map_option user_id (req_user req) = Some uid"
    using facts(3) by (simp add: uid_def)
  moreover have "\<forall>sched ts w2. unique_index (payments (fst (snd (run e sched ts (st1, w2)))))"
    using run_unique_index [OF uniq1] by blast
  moreover have "recorded st1 oid"
    using key by (simp add: recorded_def pay1)
  then have "\<forall>e2 sched reqs w2.
                distinct (credited_orders e2 sched (map AtStart reqs) (st1, w2))
              \<and> oid \<notin> set (credited_orders e2 sched (map AtStart reqs) (st1, w2))"
    using credited_orders_once recorded_never_credited by blast
  ultimately show ?thesis
    using users1 pay1 key uniq1 second by blast
qed

theorem sequential_idempotency_witness:
  "unique_index (payments (example_store 10))
   \<and> recordPayPalPayment example_env (example_request 5000 ''O1'')
        (example_store 10, confirming_provider ''5.00'')
      = (Returns ((json_message 200 credit_message)\<lparr>res_balance := Some (Fin 15)\<rparr>),
         recorded_store 15 ''O1'',
         \<lparr>accessTokenCache = Some (''A21AAF'', 32340000), clock = 0, tokenReplies = [],
          captureReplies = [], orderReplies = [],
          requests = [TokenRequest, CaptureRequest ''C1'', OrderRequest ''O1''], delays = []\<rparr>)
   \<and> message ((json_message 200 credit_message)\<lparr>res_balance := Some (Fin 15)\<rparr>) = credit_message
   \<and> (\<exists>oid uid b1 p.
           body_orderId (example_request 5000 ''O1'') = JStr oid
         \<and> map_option user_id (req_user (example_request 5000 ''O1'')) = Some uid
         \<and> res_balance ((json_message 200 credit_message)\<lparr>res_balance := Some (Fin 15)\<rparr>) = Some b1
         \<and> users (recorded_store 15 ''O1'') uid = Some b1
         \<and> payments (recorded_store 15 ''O1'') = payments (example_store 10) @ [p]
         \<and> index_key p = (paypal, Some oid)
         \<and> unique_index (payments (recorded_store 15 ''O1''))
         \<and> (\<forall>e2 w2. \<exists>r2 st2.
                recordPayPalPayment e2 (example_request 5000 ''O1'') (recorded_store 15 ''O1'', w2)
                  = (Returns r2, st2, w2)
              \<and> status r2 = 409
              \<and> payments st2 = payments (recorded_store 15 ''O1'')
              \<and> res_balance r2 = users st2 uid))"
proof -
  have h1: "unique_index (payments (example_store 10))"
    by (simp add: example_env_def confirming_provider_def example_store_def recorded_store_def
        example_request_def scripted_provider_def completed_capture_def example_order_def
        recorded_payment_def example_user_def example_token_def example_capture_def
        unique_index_def)
  have h2: "recordPayPalPayment example_env (example_request 5000 ''O1'')
        (example_store 10, confirming_provider ''5.00'')
      = (Returns ((json_message 200 credit_message)\<lparr>res_balance := Some (Fin 15)\<rparr>),
         recorded_store 15 ''O1'',
         \<lparr>accessTokenCache = Some (''A21AAF'', 32340000), clock = 0, tokenReplies = [],
          captureReplies = [], orderReplies = [],
          requests = [TokenRequest, CaptureRequest ''C1'', OrderRequest ''O1''], delays = []\<rparr>)"
    by (simp add: example_env_def confirming_provider_def example_store_def recorded_store_def
        example_request_def scripted_provider_def completed_capture_def example_order_def
        recorded_payment_def example_user_def example_token_def example_capture_def service_defs
        js_defs controller_defs)
  have h3: "message ((json_message 200 credit_message)\<lparr>res_balance := Some (Fin 15)\<rparr>) = credit_message"
    by (simp add: json_message_def)
  from sequential_idempotency [OF h1 h2 h3] obtain oid uid b1 p where
    c: "body_orderId (example_request 5000 ''O1'') = JStr oid"
      "map_option user_id (req_user (example_request 5000 ''O1'')) = Some uid"
      "res_balance ((json_message 200 credit_message)\<lparr>res_balance := Some (Fin 15)\<rparr>) = Some b1"
      "users (recorded_store 15 ''O1'') uid = Some b1"
      "payments (recorded_store 15 ''O1'') = payments (example_store 10) @ [p]"
      "index_key p = (paypal, Some oid)"
      "unique_index (payments (recorded_store 15 ''O1''))"
    and d: "\<forall>e2 w2. \<exists>r2 st2.
                recordPayPalPayment e2 (example_request 5000 ''O1'') (recorded_store 15 ''O1'', w2)
                  = (Returns r2, st2, w2)
              \<and> status r2 = 409
              \<and> payments st2 = payments (recorded_store 15 ''O1'')
              \<and> res_balance r2 = users st2 uid
              \<and> res_balance r2 = Some (if js_gt b1 (Fin 1000) then js_div b1 (Fin 1000) else b1)
              \<and> (\<not> js_gt b1 (Fin 1000) \<longrightarrow> st2 = recorded_store 15 ''O1''
                    \<and> res_balance r2 = res_balance ((json_message 200 credit_message)\<lparr>res_balance := Some (Fin 15)\<rparr>))"
    by blast
  from d have "\<forall>e2 w2. \<exists>r2 st2.
                recordPayPalPayment e2 (example_request 5000 ''O1'') (recorded_store 15 ''O1'', w2)
                  = (Returns r2, st2, w2)
              \<and> status r2 = 409
              \<and> payments st2 = payments (recorded_store 15 ''O1'')
              \<and> res_balance r2 = users st2 uid"
    by blast
  with c h1 h2 h3 show ?thesis by blast
qed

text \<open>
  Claim C1, as stated, fails where the first submission lifts the balance above 1000:
  from 900 the credit of 200 gives 1100, and the second submission of the same order
  stores and returns 1.1.
\<close>

theorem renormalized_balance_differs:
  "fst (submit_twice example_env (example_request 200000 ''O1'')
          (example_store 900, confirming_provider ''200.00''))
     = Returns ((json_message 200 credit_message)\<lparr>res_balance := Some (Fin 1100)\<rparr>)
   \<and> fst (snd (submit_twice example_env (example_request 200000 ''O1'')
          (example_store 900, confirming_provider ''200.00'')))
     = Returns ((json_message 409 ''This PayPal order has already been recorded.'')
                 \<lparr>res_balance := Some (Fin (11 / 10))\<rparr>)
   \<and> users (fst (snd (snd (submit_twice example_env (example_request 200000 ''O1'')
          (example_store 900, confirming_provider ''200.00''))))) ''u1'' = Some (Fin (11 / 10))"
  by (simp add: example_env_def confirming_provider_def example_store_def example_request_def
      submit_twice_def scripted_provider_def completed_capture_def example_order_def
      example_user_def example_token_def example_capture_def service_defs js_defs
      controller_defs)

section \<open>The credit\<close>

text \<open>
  Claim C8, as amended. The credit writes the balance read when the request loaded the
  user (normalized), plus the amount in pounds: the value written does not depend on
  what the store holds at the time of the write. A request that runs alone from its
  first line to the credit leaves the stored balance at that value.
\<close>

theorem credit_is_read_modify_write:
  assumes "load_and_precheck req st = (Inr sub, st1)"
  shows "\<exists>b0 b1.
           users st (sub_userId sub) = Some b0
         \<and> b1 = js_add (if js_gt b0 (Fin 1000) then js_div b0 (Fin 1000) else b0)
                       (js_div (js_Number (body_amount req)) (Fin 1000))
         \<and> (\<forall>st2. credit_balance sub st2 =
                     ((json_message 200 credit_message)\<lparr>res_balance := Some b1\<rparr>,
                      st2\<lparr>users := (users st2)(sub_userId sub \<mapsto> b1)\<rparr>))
         \<and> (\<forall>e w r s w1. recordPayPalPayment e req (st, w) = (Returns r, s, w1)
                \<and> message r = credit_message \<longrightarrow> users s (sub_userId sub) = Some b1)"
proof -
  from load_and_precheck_user [OF assms] obtain b0 where
    u: "users st (sub_userId sub) = Some b0"
    and n: "normalize_balance \<lparr>doc_id = sub_userId sub, balance = b0\<rparr> st = (sub_user sub, st1)"
    by blast
  define b1 where "b1 = js_add (if js_gt b0 (Fin 1000) then js_div b0 (Fin 1000) else b0)
                       (js_div (js_Number (body_amount req)) (Fin 1000))"
  have "sub_user sub = fst (normalize_balance \<lparr>doc_id = sub_userId sub, balance = b0\<rparr> st)"
    using n by simp
  then have bal: "balance (sub_user sub) = (if js_gt b0 (Fin 1000) then js_div b0 (Fin 1000) else b0)"
    by (simp add: normalize_balance_def Let_def)
  have amt: "amountInPounds sub = js_div (js_Number (body_amount req)) (Fin 1000)"
    using load_and_precheck_Inr(4) [OF assms] by (simp add: amountInPounds_def)
  have did: "doc_id (sub_user sub) = sub_userId sub"
    using load_and_precheck_doc_id [OF assms] .
  have wr: "credit_balance sub st2 =
                     ((json_message 200 credit_message)\<lparr>res_balance := Some b1\<rparr>,
                      st2\<lparr>users := (users st2)(sub_userId sub \<mapsto> b1)\<rparr>)" for st2
    by (simp add: credit_balance_eq bal amt did b1_def)
  have seq: "users s (sub_userId sub) = Some b1"
    if "recordPayPalPayment e req (st, w) = (Returns r, s, w1)" and "message r = credit_message"
    for e w r s w1
  proof -
    from recordPayPalPayment_credited [OF that] obtain sub' st0 v where
      l: "load_and_precheck req st = (Inr sub', st0)"
      and s: "s = st0\<lparr>payments := payments st0 @ [new_payment e sub' v (clock w1)],
                      users := (users st0)(sub_userId sub' \<mapsto>
                                 js_add (balance (sub_user sub')) (amountInPounds sub'))\<rparr>"
      by blast
    from l assms have "sub' = sub" by simp
    with s show ?thesis
      by (simp add: bal amt b1_def)
  qed
  from u wr seq show ?thesis
    unfolding b1_def by blast
qed

theorem credit_is_read_modify_write_witness:
  "load_and_precheck (example_request 5000 ''O1'') (example_store 10)
       = (Inr \<lparr>sub_user = \<lparr>doc_id = ''u1'', balance = Fin 10\<rparr>, sub_userId = ''u1'',
               parsedAmount = Fin 5000, sub_orderId = ''O1'', sub_currency = ''GBP'',
               sub_captureId = Some ''C1''\<rparr>, example_store 10)
   \<and> credit_balance \<lparr>sub_user = \<lparr>doc_id = ''u1'', balance = Fin 10\<rparr>, sub_userId = ''u1'',
               parsedAmount = Fin 5000, sub_orderId = ''O1'', sub_currency = ''GBP'',
               sub_captureId = Some ''C1''\<rparr> (example_store 700)
       = ((json_message 200 credit_message)\<lparr>res_balance := Some (Fin 15)\<rparr>, example_store 15)"
proof -
  have l: "load_and_precheck (example_request 5000 ''O1'') (example_store 10)
       = (Inr \<lparr>sub_user = \<lparr>doc_id = ''u1'', balance = Fin 10\<rparr>, sub_userId = ''u1'',
               parsedAmount = Fin 5000, sub_orderId = ''O1'', sub_currency = ''GBP'',
               sub_captureId = Some ''C1''\<rparr>, example_store 10)"
    by (simp add: example_store_def example_request_def example_user_def controller_defs js_defs)
  from credit_is_read_modify_write [OF l] obtain b0 b1 where
    u: "users (example_store 10) ''u1'' = Some b0"
    and b: "b1 = js_add (if js_gt b0 (Fin 1000) then js_div b0 (Fin 1000) else b0)
                       (js_div (js_Number (body_amount (example_request 5000 ''O1''))) (Fin 1000))"
    and w: "\<forall>st2. credit_balance \<lparr>sub_user = \<lparr>doc_id = ''u1'', balance = Fin 10\<rparr>, sub_userId = ''u1'',
               parsedAmount = Fin 5000, sub_orderId = ''O1'', sub_currency = ''GBP'',
               sub_captureId = Some ''C1''\<rparr> st2 =
                     ((json_message 200 credit_message)\<lparr>res_balance := Some b1\<rparr>,
                      st2\<lparr>users := (users st2)(''u1'' \<mapsto> b1)\<rparr>)"
    by auto
  from u have "b0 = Fin 10" by (simp add: example_store_def)
  with b have "b1 = Fin 15" by (simp add: example_request_def js_gt_def)
  with w [rule_format, of "example_store 700"] l show ?thesis
    by (simp add: example_store_def)
qed

text \<open>
  Claim C8, as stated, fails. Two requests for two verified orders of the same user, of
  5 and 7 pounds, load the balance 10 before either credits: both are answered 200,
  both payments are recorded, and the balance ends at 17, not 22.
\<close>

theorem concurrent_credit_lost:
  "fst (run example_env [0, 1, 0, 1, 0, 1, 0, 0, 1, 1]
          [AtStart (example_request 5000 ''O1''), AtStart (example_request 7000 ''O2'')]
          (example_store 10,
           scripted_provider
             [Reply 200 None (Inr (completed_capture ''GBP'' ''5.00'')),
              Reply 200 None (Inr (completed_capture ''GBP'' ''7.00''))]
             [Reply 200 None (Inr example_order), Reply 200 None (Inr example_order)]))
     = [Finished (Returns ((json_message 200 credit_message)\<lparr>res_balance := Some (Fin 15)\<rparr>)),
        Finished (Returns ((json_message 200 credit_message)\<lparr>res_balance := Some (Fin 17)\<rparr>))]
   \<and> users (fst (snd (run example_env [0, 1, 0, 1, 0, 1, 0, 0, 1, 1]
          [AtStart (example_request 5000 ''O1''), AtStart (example_request 7000 ''O2'')]
          (example_store 10,
           scripted_provider
             [Reply 200 None (Inr (completed_capture ''GBP'' ''5.00'')),
              Reply 200 None (Inr (completed_capture ''GBP'' ''7.00''))]
             [Reply 200 None (Inr example_order), Reply 200 None (Inr example_order)])))) ''u1''
     = Some (Fin 17)
   \<and> map pay_amount (payments (fst (snd (run example_env [0, 1, 0, 1, 0, 1, 0, 0, 1, 1]
          [AtStart (example_request 5000 ''O1''), AtStart (example_request 7000 ''O2'')]
          (example_store 10,
           scripted_provider
             [Reply 200 None (Inr (completed_capture ''GBP'' ''5.00'')),
              Reply 200 None (Inr (completed_capture ''GBP'' ''7.00''))]
             [Reply 200 None (Inr example_order), Reply 200 None (Inr example_order)])))))
     = [Fin 5000, Fin 7000]"
  by (simp add: example_env_def completed_capture_def example_order_def scripted_provider_def
      example_store_def example_request_def example_capture_def example_token_def
      example_user_def load_user_def precheck_def already_processed_def step_def service_defs
      js_defs controller_defs)

section \<open>Retries of the provider calls\<close>

lemma token_try_503 [simp]: "token_try rc (Reply 503 name body) = Again"
  by (simp add: token_try_def response_ok_def)

lemma getAccessToken_503:
  assumes "truthy (paypalClientId e)" and "truthy (paypalClientSecret e)"
  shows "getAccessToken e rc
           \<lparr>accessTokenCache = None, clock = t,
            tokenReplies = replicate n (Reply 503 name body),
            captureReplies = cs, orderReplies = os, requests = rq, delays = ds\<rparr> =
           (Unanswered,
            \<lparr>accessTokenCache = None, clock = t + sum_list (map retryDelay [rc..<rc + n]),
             tokenReplies = [], captureReplies = cs, orderReplies = os,
             requests = rq @ replicate (Suc n) TokenRequest,
             delays = ds @ map retryDelay [rc..<rc + n]\<rparr>)"
proof (induction n arbitrary: rc t rq ds)
  case 0
  then show ?case
    using assms by (simp add: getAccessToken.simps cached_token_def)
next
  case (Suc n)
  have up: "[rc..<rc + Suc n] = rc # [Suc rc..<Suc rc + n]"
    by (simp add: upt_conv_Cons)
  have "getAccessToken e rc
           \<lparr>accessTokenCache = None, clock = t,
            tokenReplies = replicate (Suc n) (Reply 503 name body),
            captureReplies = cs, orderReplies = os, requests = rq, delays = ds\<rparr>
        = getAccessToken e (Suc rc)
           \<lparr>accessTokenCache = None, clock = t + retryDelay rc,
            tokenReplies = replicate n (Reply 503 name body),
            captureReplies = cs, orderReplies = os, requests = rq @ [TokenRequest],
            delays = ds @ [retryDelay rc]\<rparr>"
    using assms
    by (subst getAccessToken.simps) (simp add: cached_token_def sleep_def)
  then show ?case
    unfolding up by (simp add: Suc.IH replicate_append_same)
qed

text \<open>
  Claim C3 fails for the token exchange. A token endpoint that answers 503 is asked
  again after every answer, whatever the retry count: after \<open>n\<close> such answers the call
  has slept \<open>n\<close> times, for 1000, 2000, ... milliseconds, has sent \<open>n + 1\<close> requests and
  has not returned.
\<close>

theorem token_retries_unbounded:
  "getAccessToken example_env 0 (token_endpoint_503 n) =
     (Unanswered,
      \<lparr>accessTokenCache = None, clock = sum_list (map retryDelay [0..<n]),
       tokenReplies = [], captureReplies = [], orderReplies = [],
       requests = replicate (Suc n) TokenRequest,
       delays = map retryDelay [0..<n]\<rparr>)"
  using getAccessToken_503 [of example_env 0 0 n None "Inl []" "[]" "[]" "[]" "[]"]
  by (simp add: token_endpoint_503_def example_env_def)

text \<open>Five answers of 503 and then a token: five retries, the last after five seconds.\<close>

lemma token_five_retries:
  "getAccessToken example_env 0
     \<lparr>accessTokenCache = None, clock = 0,
      tokenReplies = [Reply 503 None (Inl []), Reply 503 None (Inl []), Reply 503 None (Inl []),
                      Reply 503 None (Inl []), Reply 503 None (Inl []), example_token],
      captureReplies = [], orderReplies = [], requests = [], delays = []\<rparr>
   = (Returns ''A21AAF'',
      \<lparr>accessTokenCache = Some (''A21AAF'', 32355000), clock = 15000,
       tokenReplies = [], captureReplies = [], orderReplies = [],
       requests = [TokenRequest, TokenRequest, TokenRequest, TokenRequest, TokenRequest,
                   TokenRequest],
       delays = [1000, 2000, 3000, 4000, 5000]\<rparr>)"
  by (simp add: example_env_def example_token_def service_defs)

text \<open>The order lookup gives up after three retries, as the capture lookup does.\<close>

lemma order_retries_bounded:
  "verifyPayPalOrder example_env ''O1'' 0
     (scripted_provider []
        [Reply 503 None (Inl []), Reply 503 None (Inl []), Reply 503 None (Inl []),
         Reply 503 None (Inl []), Reply 503 None (Inl []), Reply 503 None (Inl [])])
   = (Throws ''Failed to verify PayPal order: PayPal order verification failed: 503'',
      \<lparr>accessTokenCache = Some (''A21AAF'', 32340000), clock = 6000,
       tokenReplies = [], captureReplies = [],
       orderReplies = [Reply 503 None (Inl []), Reply 503 None (Inl [])],
       requests = [TokenRequest, OrderRequest ''O1'', OrderRequest ''O1'', OrderRequest ''O1'',
                   OrderRequest ''O1''],
       delays = [1000, 2000, 3000]\<rparr>)"
  by (simp add: example_env_def scripted_provider_def example_token_def service_defs js_defs)

lemma order_requests_append [simp]:
  "order_requests (xs @ ys) = order_requests xs + order_requests ys"
  by (induction xs rule: order_requests.induct) auto

lemma capture_requests_append [simp]:
  "capture_requests (xs @ ys) = capture_requests xs + capture_requests ys"
  by (induction xs rule: capture_requests.induct) auto

lemma getAccessToken_order_requests:
  "order_requests (requests (snd (getAccessToken e rc w))) = order_requests (requests w)"
proof (induction e rc w rule: getAccessToken.induct)
  case (1 e retryCount w)
  show ?case
  proof (cases "cached_token w")
    case (Some token)
    then show ?thesis by (subst getAccessToken.simps) simp
  next
    case None
    show ?thesis
    proof (cases "\<not> truthy (paypalClientId e) \<or> \<not> truthy (paypalClientSecret e)")
      case True
      with None show ?thesis by (subst getAccessToken.simps) auto
    next
      case False
      show ?thesis
      proof (cases "tokenReplies w")
        case Nil
        with None False show ?thesis by (subst getAccessToken.simps) simp
      next
        case (Cons r rs)
        show ?thesis
        proof (cases "token_try retryCount r")
          case Again
          from "1.IH"(1) [OF None False Cons refl Again] None False Cons Again show ?thesis
            by (subst getAccessToken.simps) (simp add: sleep_def)
        next
          case (Caught m1)
          show ?thesis
          proof (cases "retryCount < maxRetries \<and> network_error m1")
            case True
            from "1.IH"(2) [OF None False Cons refl Caught True] None False Cons Caught True
            show ?thesis
              by (subst getAccessToken.simps) (simp add: sleep_def)
          next
            case nomore: False
            with None False Cons Caught show ?thesis
              by (subst getAccessToken.simps) auto
          qed
        next
          case (Got d)
          with None False Cons show ?thesis
            by (subst getAccessToken.simps) simp
        qed
      qed
    qed
  qed
qed

lemma getAccessToken_capture_requests:
  "capture_requests (requests (snd (getAccessToken e rc w))) = capture_requests (requests w)"
proof (induction e rc w rule: getAccessToken.induct)
  case (1 e retryCount w)
  show ?case
  proof (cases "cached_token w")
    case (Some token)
    then show ?thesis by (subst getAccessToken.simps) simp
  next
    case None
    show ?thesis
    proof (cases "\<not> truthy (paypalClientId e) \<or> \<not> truthy (paypalClientSecret e)")
      case True
      with None show ?thesis by (subst getAccessToken.simps) auto
    next
      case False
      show ?thesis
      proof (cases "tokenReplies w")
        case Nil
        with None False show ?thesis by (subst getAccessToken.simps) simp
      next
        case (Cons r rs)
        show ?thesis
        proof (cases "token_try retryCount r")
          case Again
          from "1.IH"(1) [OF None False Cons refl Again] None False Cons Again show ?thesis
            by (subst getAccessToken.simps) (simp add: sleep_def)
        next
          case (Caught m1)
          show ?thesis
          proof (cases "retryCount < maxRetries \<and> network_error m1")
            case True
            from "1.IH"(2) [OF None False Cons refl Caught True] None False Cons Caught True
            show ?thesis
              by (subst getAccessToken.simps) (simp add: sleep_def)
          next
            case nomore: False
            with None False Cons Caught show ?thesis
              by (subst getAccessToken.simps) auto
          qed
        next
          case (Got d)
          with None False Cons show ?thesis
            by (subst getAccessToken.simps) simp
        qed
      qed
    qed
  qed
qed

text \<open>
  One lookup of an order, and one of a capture, sends at most four requests to its
  endpoint, whatever the provider answers.
\<close>

lemma order_try_Again: "order_try rc r = Again \<Longrightarrow> rc < maxRetries"
  by (auto simp: order_try_def split: reply.splits if_splits sum.splits)

lemma verifyPayPalOrder_requests_bounded:
  "order_requests (requests (snd (verifyPayPalOrder e oid rc w)))
     \<le> order_requests (requests w) + Suc (maxRetries - rc)"
proof (induction e oid rc w rule: verifyPayPalOrder.induct)
  case (1 e orderId retryCount w)
  obtain r0 w0 where g: "getAccessToken e 0 w = (r0, w0)"
    by (cases "getAccessToken e 0 w") auto
  from getAccessToken_order_requests [of e 0 w] g
  have same: "order_requests (requests w0) = order_requests (requests w)"
    by simp
  show ?case
  proof (cases r0)
    case Unanswered
    with g same show ?thesis
      by (subst verifyPayPalOrder.simps) simp
  next
    case (Throws m0)
    with g same show ?thesis
      by (subst verifyPayPalOrder.simps) simp
  next
    case (Returns token)
    show ?thesis
    proof (cases "orderReplies w0")
      case Nil
      with g Returns same show ?thesis
        by (subst verifyPayPalOrder.simps) simp
    next
      case (Cons r rs)
      let ?w1 = "w0\<lparr>orderReplies := rs, requests := requests w0 @ [OrderRequest orderId]\<rparr>"
      let ?next = "verifyPayPalOrder e orderId (retryCount + 1) (sleep (retryDelay retryCount) ?w1)"
      have sent: "order_requests (requests (sleep (retryDelay retryCount) ?w1))
                    = Suc (order_requests (requests w))"
        by (simp add: sleep_def same)
      show ?thesis
      proof (cases "order_try retryCount r")
        case Again
        have eq: "verifyPayPalOrder e orderId retryCount w = ?next"
          by (subst verifyPayPalOrder.simps) (simp add: g Returns Cons Again)
        have lt: "retryCount < maxRetries"
          using order_try_Again [OF Again] .
        from "1.IH"(1) [OF g [symmetric] Returns Cons refl Again] sent
        have "order_requests (requests (snd ?next))
                \<le> Suc (order_requests (requests w)) + Suc (maxRetries - (retryCount + 1))"
          by simp
        with lt show ?thesis
          unfolding eq by arith
      next
        case (Caught m1)
        show ?thesis
        proof (cases "retryCount < maxRetries \<and> network_error m1")
          case True
          have eq: "verifyPayPalOrder e orderId retryCount w = ?next"
            by (subst verifyPayPalOrder.simps) (simp add: g Returns Cons Caught True)
          from "1.IH"(2) [OF g [symmetric] Returns Cons refl Caught True] sent
          have "order_requests (requests (snd ?next))
                  \<le> Suc (order_requests (requests w)) + Suc (maxRetries - (retryCount + 1))"
            by simp
          with True show ?thesis
            unfolding eq by arith
        next
          case False
          with g Returns Cons Caught same show ?thesis
            by (subst verifyPayPalOrder.simps) auto
        qed
      next
        case (Got d)
        with g Returns Cons same show ?thesis
          by (subst verifyPayPalOrder.simps) simp
      qed
    qed
  qed
qed

lemma capture_try_Again: "capture_try e cid rc r = Again \<Longrightarrow> rc < maxRetries"
  by (auto simp: capture_try_def split: reply.splits if_splits sum.splits)

lemma verifyPayPalCapture_requests_bounded:
  "capture_requests (requests (snd (verifyPayPalCapture e cid rc w)))
     \<le> capture_requests (requests w) + Suc (maxRetries - rc)"
proof (induction e cid rc w rule: verifyPayPalCapture.induct)
  case (1 e captureId retryCount w)
  obtain r0 w0 where g: "getAccessToken e 0 w = (r0, w0)"
    by (cases "getAccessToken e 0 w") auto
  from getAccessToken_capture_requests [of e 0 w] g
  have same: "capture_requests (requests w0) = capture_requests (requests w)"
    by simp
  show ?case
  proof (cases r0)
    case Unanswered
    with g same show ?thesis
      by (subst verifyPayPalCapture.simps) simp
  next
    case (Throws m0)
    with g same show ?thesis
      by (subst verifyPayPalCapture.simps) simp
  next
    case (Returns token)
    show ?thesis
    proof (cases "captureReplies w0")
      case Nil
      with g Returns same show ?thesis
        by (subst verifyPayPalCapture.simps) simp
    next
      case (Cons r rs)
      let ?w1 = "w0\<lparr>captureReplies := rs, requests := requests w0 @ [CaptureRequest captureId]\<rparr>"
      let ?next = "verifyPayPalCapture e captureId (retryCount + 1) (sleep (retryDelay retryCount) ?w1)"
      have sent: "capture_requests (requests (sleep (retryDelay retryCount) ?w1))
                    = Suc (capture_requests (requests w))"
        by (simp add: sleep_def same)
      show ?thesis
      proof (cases "capture_try e captureId retryCount r")
        case Again
        have eq: "verifyPayPalCapture e captureId retryCount w = ?next"
          by (subst verifyPayPalCapture.simps) (simp add: g Returns Cons Again)
        have lt: "retryCount < maxRetries"
          using capture_try_Again [OF Again] .
        from "1.IH"(1) [OF g [symmetric] Returns Cons refl Again] sent
        have "capture_requests (requests (snd ?next))
                \<le> Suc (capture_requests (requests w)) + Suc (maxRetries - (retryCount + 1))"
          by simp
        with lt show ?thesis
          unfolding eq by arith
      next
        case (Caught m1)
        show ?thesis
        proof (cases "retryCount < maxRetries \<and> network_error m1")
          case True
          have eq: "verifyPayPalCapture e captureId retryCount w = ?next"
            by (subst verifyPayPalCapture.simps) (simp add: g Returns Cons Caught True)
          from "1.IH"(2) [OF g [symmetric] Returns Cons refl Caught True] sent
          have "capture_requests (requests (snd ?next))
                  \<le> Suc (capture_requests (requests w)) + Suc (maxRetries - (retryCount + 1))"
            by simp
          with True show ?thesis
            unfolding eq by arith
        next
          case False
          with g Returns Cons Caught same show ?thesis
            by (subst verifyPayPalCapture.simps) auto
        qed
      next
        case (Got d)
        with g Returns Cons same show ?thesis
          by (subst verifyPayPalCapture.simps) simp
      qed
    qed
  qed
qed

section \<open>Verification\<close>


lemma capture_accepted_NaN:
  assumes "parseFloat (amount_value c) = NaN"
  shows "capture_accepted c x cur \<longleftrightarrow> capture_status c = ''COMPLETED'' \<and> currency_code c = cur"
  using assms by (auto simp: capture_accepted_def js_sub_def js_gt_def Let_def)

text \<open>
  Claim C4 fails for a capture whose amount does not parse. \<open>parseFloat\<close> gives
  \<open>NaN\<close>, the difference to the expected amount is \<open>NaN\<close>, and \<open>NaN > 0.01\<close> is
  false: a completed capture in the expected currency is verified, by the capture
  strategy and by the order strategy, though its amount is not within 0.01 of the
  expected one; the handler credits the account.
\<close>

theorem unparseable_amount_is_verified:
  "parseFloat ''N/A'' = NaN
   \<and> \<not> js_le (js_abs (js_sub (parseFloat ''N/A'') (Fin 5))) (Fin (1 / 100))
   \<and> fst (verifyPayPalPayment example_env ''O1'' (Fin 5) ''GBP'' (Some ''C1'')
            (scripted_provider [Reply 200 None (Inr (completed_capture ''GBP'' ''N/A''))]
               [Reply 200 None (Inr example_order)]))
       = Returns \<lparr>verified = True, captureDetails = Some (completed_capture ''GBP'' ''N/A''),
                  orderDetails = Some example_order\<rparr>
   \<and> fst (verifyPayPalPayment example_env ''O1'' (Fin 5) ''GBP'' None
            (scripted_provider []
               [Reply 200 None (Inr (example_order\<lparr>purchase_units :=
                  [\<lparr>unit_captures = Some [completed_capture ''GBP'' ''N/A'']\<rparr>]\<rparr>))]))
       = Returns \<lparr>verified = True, captureDetails = Some (completed_capture ''GBP'' ''N/A''),
                  orderDetails = Some (example_order\<lparr>purchase_units :=
                  [\<lparr>unit_captures = Some [completed_capture ''GBP'' ''N/A'']\<rparr>]\<rparr>)\<rparr>
   \<and> fst (recordPayPalPayment example_env (example_request 5000 ''O1'')
            (example_store 10,
             scripted_provider [Reply 200 None (Inr (completed_capture ''GBP'' ''N/A''))]
               [Reply 200 None (Inr example_order)]))
       = Returns ((json_message 200 credit_message)\<lparr>res_balance := Some (Fin 15)\<rparr>)"
  by (simp add: example_env_def completed_capture_def example_order_def scripted_provider_def
      example_store_def example_request_def example_capture_def example_token_def
      example_user_def service_defs js_defs controller_defs)



lemma getAccessToken_throws:
  "getAccessToken e rc w = (Throws m, w') \<Longrightarrow> provider_error m"
proof (induction e rc w rule: getAccessToken.induct)
  case (1 e retryCount w)
  show ?case
  proof (cases "cached_token w")
    case (Some token)
    with "1.prems" show ?thesis
      by (subst (asm) getAccessToken.simps) simp
  next
    case None
    show ?thesis
    proof (cases "\<not> truthy (paypalClientId e) \<or> \<not> truthy (paypalClientSecret e)")
      case True
      with None "1.prems" have "m = credentials_message"
        by (subst (asm) getAccessToken.simps) auto
      then show ?thesis by (simp add: provider_error_def)
    next
      case False
      show ?thesis
      proof (cases "tokenReplies w")
        case Nil
        with None False "1.prems" show ?thesis
          by (subst (asm) getAccessToken.simps) simp
      next
        case (Cons r rs)
        let ?w1 = "w\<lparr>tokenReplies := rs, requests := requests w @ [TokenRequest]\<rparr>"
        show ?thesis
        proof (cases "token_try retryCount r")
          case Again
          with None False Cons "1.prems"
          have "getAccessToken e (retryCount + 1) (sleep (retryDelay retryCount) ?w1)
                  = (Throws m, w')"
            by (subst (asm) getAccessToken.simps) simp
          with "1.IH"(1) [OF None False Cons refl Again] show ?thesis .
        next
          case (Caught m1)
          show ?thesis
          proof (cases "retryCount < maxRetries \<and> network_error m1")
            case True
            with None False Cons Caught "1.prems"
            have "getAccessToken e (retryCount + 1) (sleep (retryDelay retryCount) ?w1)
                    = (Throws m, w')"
              by (subst (asm) getAccessToken.simps) simp
            with "1.IH"(2) [OF None False Cons refl Caught True] show ?thesis .
          next
            case nomore: False
            with None False Cons Caught "1.prems"
            have "m = ''Failed to authenticate with PayPal: '' @ m1"
              by (subst (asm) getAccessToken.simps) auto
            then show ?thesis by (simp add: provider_error_def)
          qed
        next
          case (Got d)
          with None False Cons "1.prems" show ?thesis
            by (subst (asm) getAccessToken.simps) simp
        qed
      qed
    qed
  qed
qed

lemma verifyPayPalOrder_throws:
  "verifyPayPalOrder e oid rc w = (Throws m, w') \<Longrightarrow> provider_error m"
proof (induction e oid rc w rule: verifyPayPalOrder.induct)
  case (1 e orderId retryCount w)
  obtain r0 w0 where g: "getAccessToken e 0 w = (r0, w0)"
    by (cases "getAccessToken e 0 w") auto
  show ?case
  proof (cases r0)
    case Unanswered
    with g "1.prems" show ?thesis
      by (subst (asm) verifyPayPalOrder.simps) simp
  next
    case (Throws m0)
    with g "1.prems" have "m = m0"
      by (subst (asm) verifyPayPalOrder.simps) simp
    with g Throws show ?thesis
      using getAccessToken_throws by blast
  next
    case (Returns token)
    show ?thesis
    proof (cases "orderReplies w0")
      case Nil
      with g Returns "1.prems" show ?thesis
        by (subst (asm) verifyPayPalOrder.simps) simp
    next
      case (Cons r rs)
      let ?w1 = "w0\<lparr>orderReplies := rs, requests := requests w0 @ [OrderRequest orderId]\<rparr>"
      show ?thesis
      proof (cases "order_try retryCount r")
        case Again
        with g Returns Cons "1.prems"
        have "verifyPayPalOrder e orderId (retryCount + 1) (sleep (retryDelay retryCount) ?w1)
                = (Throws m, w')"
          by (subst (asm) verifyPayPalOrder.simps) simp
        with "1.IH"(1) [OF g [symmetric] Returns Cons refl Again] show ?thesis .
      next
        case (Caught m1)
        show ?thesis
        proof (cases "retryCount < maxRetries \<and> network_error m1")
          case True
          with g Returns Cons Caught "1.prems"
          have "verifyPayPalOrder e orderId (retryCount + 1) (sleep (retryDelay retryCount) ?w1)
                  = (Throws m, w')"
            by (subst (asm) verifyPayPalOrder.simps) simp
          with "1.IH"(2) [OF g [symmetric] Returns Cons refl Caught True] show ?thesis .
        next
          case False
          with g Returns Cons Caught "1.prems"
          have "m = ''Failed to verify PayPal order: '' @ m1"
            by (subst (asm) verifyPayPalOrder.simps) auto
          then show ?thesis by (simp add: provider_error_def)
        qed
      next
        case (Got d)
        with g Returns Cons "1.prems" show ?thesis
          by (subst (asm) verifyPayPalOrder.simps) simp
      qed
    qed
  qed
qed

lemma both_not_found_distinct:
  "both_not_found_message cid oid \<noteq> order_not_found_message oid'"
  "both_not_found_message cid oid \<noteq> capture_not_found_message e cid'"
  "\<not> provider_error (both_not_found_message cid oid)"
  by (simp_all add: both_not_found_message_def order_not_found_message_def
      capture_not_found_message_def provider_error_def credentials_message_def)

text \<open>
  Claim C6. When the capture lookup throws and the order lookup throws a not-found
  error, verification throws the environment mismatch error. Its message differs from
  the message for an order alone not found, from the message for a capture not found,
  and from every error the order lookup can throw.
\<close>

theorem environment_mismatch:
  assumes "cid \<noteq> []"
    and "verifyPayPalCapture e cid 0 w = (Throws m1, w1)"
    and "verifyPayPalOrder e oid 0 w1 = (Throws m2, w2)"
    and "is404 m2"
  shows "verifyPayPalPayment e oid x cur (Some cid) w
           = (Throws (both_not_found_message cid oid), w2)
       \<and> both_not_found_message cid oid \<noteq> order_not_found_message oid'
       \<and> both_not_found_message cid oid \<noteq> capture_not_found_message e cid'
       \<and> both_not_found_message cid oid \<noteq> m2
       \<and> (\<forall>m3 w3 w4. verifyPayPalOrder e oid 0 w3 = (Throws m3, w4) \<longrightarrow>
              m3 \<noteq> both_not_found_message cid oid)"
proof -
  have "verify_via_order e oid x cur (Some cid) w1 = (Throws (both_not_found_message cid oid), w2)"
    using assms(1,3,4) by (simp add: verify_via_order_def)
  then have run: "verifyPayPalPayment e oid x cur (Some cid) w
           = (Throws (both_not_found_message cid oid), w2)"
    using assms(1,2) by (simp add: verifyPayPalPayment_def)
  have others: "m3 \<noteq> both_not_found_message cid oid"
    if "verifyPayPalOrder e oid 0 w3 = (Throws m3, w4)" for m3 w3 w4
    using verifyPayPalOrder_throws [OF that] both_not_found_distinct(3) by blast
  from others [OF assms(3)] have "both_not_found_message cid oid \<noteq> m2" by blast
  with run others both_not_found_distinct(1,2) show ?thesis by blast
qed

theorem environment_mismatch_witness:
  "''C1'' \<noteq> []
   \<and> verifyPayPalCapture example_env ''C1'' 0
        (scripted_provider [Reply 404 (Some ''RESOURCE_NOT_FOUND'') (Inl [])]
           [Reply 404 (Some ''RESOURCE_NOT_FOUND'') (Inl [])])
      = (Throws (capture_not_found_message example_env ''C1''),
         \<lparr>accessTokenCache = Some (''A21AAF'', 32340000), clock = 0, tokenReplies = [],
          captureReplies = [],
          orderReplies = [Reply 404 (Some ''RESOURCE_NOT_FOUND'') (Inl [])],
          requests = [TokenRequest, CaptureRequest ''C1''], delays = []\<rparr>)
   \<and> verifyPayPalOrder example_env ''O1'' 0
        \<lparr>accessTokenCache = Some (''A21AAF'', 32340000), clock = 0, tokenReplies = [],
          captureReplies = [],
          orderReplies = [Reply 404 (Some ''RESOURCE_NOT_FOUND'') (Inl [])],
          requests = [TokenRequest, CaptureRequest ''C1''], delays = []\<rparr>
      = (Throws ''Failed to verify PayPal order: PayPal order verification failed: 404'',
         \<lparr>accessTokenCache = Some (''A21AAF'', 32340000), clock = 0, tokenReplies = [],
          captureReplies = [], orderReplies = [],
          requests = [TokenRequest, CaptureRequest ''C1'', OrderRequest ''O1''], delays = []\<rparr>)
   \<and> is404 ''Failed to verify PayPal order: PayPal order verification failed: 404''
   \<and> fst (verifyPayPalPayment example_env ''O1'' (Fin 5) ''GBP'' (Some ''C1'')
        (scripted_provider [Reply 404 (Some ''RESOURCE_NOT_FOUND'') (Inl [])]
           [Reply 404 (Some ''RESOURCE_NOT_FOUND'') (Inl [])]))
      = Throws (both_not_found_message ''C1'' ''O1'')
   \<and> fst (verifyPayPalPayment example_env ''O1'' (Fin 5) ''GBP'' None
        (scripted_provider [] [Reply 404 (Some ''RESOURCE_NOT_FOUND'') (Inl [])]))
      = Throws (order_not_found_message ''O1'')
   \<and> both_not_found_message ''C1'' ''O1'' \<noteq> order_not_found_message ''O1''"
proof -
  have h1: "''C1'' \<noteq> []" by simp
  have h2: "verifyPayPalCapture example_env ''C1'' 0
        (scripted_provider [Reply 404 (Some ''RESOURCE_NOT_FOUND'') (Inl [])]
           [Reply 404 (Some ''RESOURCE_NOT_FOUND'') (Inl [])])
      = (Throws (capture_not_found_message example_env ''C1''),
         \<lparr>accessTokenCache = Some (''A21AAF'', 32340000), clock = 0, tokenReplies = [],
          captureReplies = [],
          orderReplies = [Reply 404 (Some ''RESOURCE_NOT_FOUND'') (Inl [])],
          requests = [TokenRequest, CaptureRequest ''C1''], delays = []\<rparr>)"
    by (simp add: example_env_def scripted_provider_def example_token_def service_defs)
  have h3: "verifyPayPalOrder example_env ''O1'' 0
        \<lparr>accessTokenCache = Some (''A21AAF'', 32340000), clock = 0, tokenReplies = [],
          captureReplies = [],
          orderReplies = [Reply 404 (Some ''RESOURCE_NOT_FOUND'') (Inl [])],
          requests = [TokenRequest, CaptureRequest ''C1''], delays = []\<rparr>
      = (Throws ''Failed to verify PayPal order: PayPal order verification failed: 404'',
         \<lparr>accessTokenCache = Some (''A21AAF'', 32340000), clock = 0, tokenReplies = [],
          captureReplies = [], orderReplies = [],
          requests = [TokenRequest, CaptureRequest ''C1'', OrderRequest ''O1''], delays = []\<rparr>)"
    by (simp add: example_env_def scripted_provider_def example_token_def service_defs js_defs)
  have h4: "is404 ''Failed to verify PayPal order: PayPal order verification failed: 404''"
    by (simp add: is404_def)
  have single: "fst (verifyPayPalPayment example_env ''O1'' (Fin 5) ''GBP'' None
        (scripted_provider [] [Reply 404 (Some ''RESOURCE_NOT_FOUND'') (Inl [])]))
      = Throws (order_not_found_message ''O1'')"
    by (simp add: example_env_def scripted_provider_def example_token_def service_defs js_defs)
  from environment_mismatch [OF h1 h2 h3 h4, of "Fin 5" "''GBP''" "''O1''" "''C1''"] h1 h2 h3 h4 single
  show ?thesis by simp
qed

end
